theory Spec2Isabelle
  imports Complex_Main
begin

section \<open>Python strings\<close>

text \<open>
  A Python \<open>str\<close> is a sequence of Unicode code points, so it is modelled as a list of
  natural numbers.  ASCII literals are written \<open>u ''income''\<close>; the Hindi, Tamil and
  Malayalam keywords of \<open>backend/main.py\<close> are written as their code points.
\<close>

type_synonym ustring = "nat list"

definition u :: "string \<Rightarrow> ustring" where
  "u s = map of_char s"

text \<open>
  \<open>str.lower\<close>, as Python 3.11 computes it from the tables of Unicode 14.0.  A character is
  mapped to its lower-case image: \<open>lower_runs\<close> lists runs \<open>(lo, hi, step, to)\<close> of
  characters, every \<open>step\<close>-th one from \<open>lo\<close> to \<open>hi\<close>, of which the first has the image
  \<open>to\<close> and the others the images that follow it at the same distance.  The
  capital I with a dot above (304) becomes two characters, and the capital sigma (931)
  becomes the final sigma (962) when a cased letter comes before it and none after it,
  characters that case ignores being passed over, and the small sigma (963) otherwise.
\<close>

definition lower_runs :: "(nat \<times> nat \<times> nat \<times> nat) list" where
  "lower_runs =
    [(65, 90, 1, 97), (192, 214, 1, 224), (216, 222, 1, 248), (256, 302, 2, 257),
     (306, 310, 2, 307), (313, 327, 2, 314), (330, 374, 2, 331), (376, 376, 1, 255),
     (377, 381, 2, 378), (385, 385, 1, 595), (386, 388, 2, 387), (390, 390, 1, 596),
     (391, 391, 1, 392), (393, 394, 1, 598), (395, 395, 1, 396), (398, 398, 1, 477),
     (399, 399, 1, 601), (400, 400, 1, 603), (401, 401, 1, 402), (403, 403, 1, 608),
     (404, 404, 1, 611), (406, 406, 1, 617), (407, 407, 1, 616), (408, 408, 1, 409),
     (412, 412, 1, 623), (413, 413, 1, 626), (415, 415, 1, 629), (416, 420, 2, 417),
     (422, 422, 1, 640), (423, 423, 1, 424), (425, 425, 1, 643), (428, 428, 1, 429),
     (430, 430, 1, 648), (431, 431, 1, 432), (433, 434, 1, 650), (435, 437, 2, 436),
     (439, 439, 1, 658), (440, 440, 1, 441), (444, 444, 1, 445), (452, 452, 1, 454),
     (453, 453, 1, 454), (455, 455, 1, 457), (456, 456, 1, 457), (458, 458, 1, 460),
     (459, 475, 2, 460), (478, 494, 2, 479), (497, 497, 1, 499), (498, 500, 2, 499),
     (502, 502, 1, 405), (503, 503, 1, 447), (504, 542, 2, 505), (544, 544, 1, 414),
     (546, 562, 2, 547), (570, 570, 1, 11365), (571, 571, 1, 572), (573, 573, 1, 410),
     (574, 574, 1, 11366), (577, 577, 1, 578), (579, 579, 1, 384), (580, 580, 1, 649),
     (581, 581, 1, 652), (582, 590, 2, 583), (880, 882, 2, 881), (886, 886, 1, 887),
     (895, 895, 1, 1011), (902, 902, 1, 940), (904, 906, 1, 941), (908, 908, 1, 972),
     (910, 911, 1, 973), (913, 929, 1, 945), (931, 939, 1, 963), (975, 975, 1, 983),
     (984, 1006, 2, 985), (1012, 1012, 1, 952), (1015, 1015, 1, 1016),
     (1017, 1017, 1, 1010), (1018, 1018, 1, 1019), (1021, 1023, 1, 891),
     (1024, 1039, 1, 1104), (1040, 1071, 1, 1072), (1120, 1152, 2, 1121),
     (1162, 1214, 2, 1163), (1216, 1216, 1, 1231), (1217, 1229, 2, 1218),
     (1232, 1326, 2, 1233), (1329, 1366, 1, 1377), (4256, 4293, 1, 11520),
     (4295, 4295, 1, 11559), (4301, 4301, 1, 11565), (5024, 5103, 1, 43888),
     (5104, 5109, 1, 5112), (7312, 7354, 1, 4304), (7357, 7359, 1, 4349),
     (7680, 7828, 2, 7681), (7838, 7838, 1, 223), (7840, 7934, 2, 7841),
     (7944, 7951, 1, 7936), (7960, 7965, 1, 7952), (7976, 7983, 1, 7968),
     (7992, 7999, 1, 7984), (8008, 8013, 1, 8000), (8025, 8031, 2, 8017),
     (8040, 8047, 1, 8032), (8072, 8079, 1, 8064), (8088, 8095, 1, 8080),
     (8104, 8111, 1, 8096), (8120, 8121, 1, 8112), (8122, 8123, 1, 8048),
     (8124, 8124, 1, 8115), (8136, 8139, 1, 8050), (8140, 8140, 1, 8131),
     (8152, 8153, 1, 8144), (8154, 8155, 1, 8054), (8168, 8169, 1, 8160),
     (8170, 8171, 1, 8058), (8172, 8172, 1, 8165), (8184, 8185, 1, 8056),
     (8186, 8187, 1, 8060), (8188, 8188, 1, 8179), (8486, 8486, 1, 969),
     (8490, 8490, 1, 107), (8491, 8491, 1, 229), (8498, 8498, 1, 8526),
     (8544, 8559, 1, 8560), (8579, 8579, 1, 8580), (9398, 9423, 1, 9424),
     (11264, 11311, 1, 11312), (11360, 11360, 1, 11361), (11362, 11362, 1, 619),
     (11363, 11363, 1, 7549), (11364, 11364, 1, 637), (11367, 11371, 2, 11368),
     (11373, 11373, 1, 593), (11374, 11374, 1, 625), (11375, 11375, 1, 592),
     (11376, 11376, 1, 594), (11378, 11378, 1, 11379), (11381, 11381, 1, 11382),
     (11390, 11391, 1, 575), (11392, 11490, 2, 11393), (11499, 11501, 2, 11500),
     (11506, 11506, 1, 11507), (42560, 42604, 2, 42561), (42624, 42650, 2, 42625),
     (42786, 42798, 2, 42787), (42802, 42862, 2, 42803), (42873, 42875, 2, 42874),
     (42877, 42877, 1, 7545), (42878, 42886, 2, 42879), (42891, 42891, 1, 42892),
     (42893, 42893, 1, 613), (42896, 42898, 2, 42897), (42902, 42920, 2, 42903),
     (42922, 42922, 1, 614), (42923, 42923, 1, 604), (42924, 42924, 1, 609),
     (42925, 42925, 1, 620), (42926, 42926, 1, 618), (42928, 42928, 1, 670),
     (42929, 42929, 1, 647), (42930, 42930, 1, 669), (42931, 42931, 1, 43859),
     (42932, 42946, 2, 42933), (42948, 42948, 1, 42900), (42949, 42949, 1, 642),
     (42950, 42950, 1, 7566), (42951, 42953, 2, 42952), (42960, 42960, 1, 42961),
     (42966, 42968, 2, 42967), (42997, 42997, 1, 42998), (65313, 65338, 1, 65345),
     (66560, 66599, 1, 66600), (66736, 66771, 1, 66776), (66928, 66938, 1, 66967),
     (66940, 66954, 1, 66979), (66956, 66962, 1, 66995), (66964, 66965, 1, 67003),
     (68736, 68786, 1, 68800), (71840, 71871, 1, 71872), (93760, 93791, 1, 93792),
     (125184, 125217, 1, 125218)]"

definition case_ignorable_ranges :: "(nat \<times> nat) list" where
  "case_ignorable_ranges =
    [(39, 39), (46, 46), (58, 58), (94, 94), (96, 96), (168, 168), (173, 173),
     (175, 175), (180, 180), (183, 184), (688, 879), (884, 885), (890, 890), (900, 901),
     (903, 903), (1155, 1161), (1369, 1369), (1375, 1375), (1425, 1469), (1471, 1471),
     (1473, 1474), (1476, 1477), (1479, 1479), (1524, 1524), (1536, 1541), (1552, 1562),
     (1564, 1564), (1600, 1600), (1611, 1631), (1648, 1648), (1750, 1757), (1759, 1768),
     (1770, 1773), (1807, 1807), (1809, 1809), (1840, 1866), (1958, 1968), (2027, 2037),
     (2042, 2042), (2045, 2045), (2070, 2093), (2137, 2139), (2184, 2184), (2192, 2193),
     (2200, 2207), (2249, 2306), (2362, 2362), (2364, 2364), (2369, 2376), (2381, 2381),
     (2385, 2391), (2402, 2403), (2417, 2417), (2433, 2433), (2492, 2492), (2497, 2500),
     (2509, 2509), (2530, 2531), (2558, 2558), (2561, 2562), (2620, 2620), (2625, 2626),
     (2631, 2632), (2635, 2637), (2641, 2641), (2672, 2673), (2677, 2677), (2689, 2690),
     (2748, 2748), (2753, 2757), (2759, 2760), (2765, 2765), (2786, 2787), (2810, 2815),
     (2817, 2817), (2876, 2876), (2879, 2879), (2881, 2884), (2893, 2893), (2901, 2902),
     (2914, 2915), (2946, 2946), (3008, 3008), (3021, 3021), (3072, 3072), (3076, 3076),
     (3132, 3132), (3134, 3136), (3142, 3144), (3146, 3149), (3157, 3158), (3170, 3171),
     (3201, 3201), (3260, 3260), (3263, 3263), (3270, 3270), (3276, 3277), (3298, 3299),
     (3328, 3329), (3387, 3388), (3393, 3396), (3405, 3405), (3426, 3427), (3457, 3457),
     (3530, 3530), (3538, 3540), (3542, 3542), (3633, 3633), (3636, 3642), (3654, 3662),
     (3761, 3761), (3764, 3772), (3782, 3782), (3784, 3789), (3864, 3865), (3893, 3893),
     (3895, 3895), (3897, 3897), (3953, 3966), (3968, 3972), (3974, 3975), (3981, 3991),
     (3993, 4028), (4038, 4038), (4141, 4144), (4146, 4151), (4153, 4154), (4157, 4158),
     (4184, 4185), (4190, 4192), (4209, 4212), (4226, 4226), (4229, 4230), (4237, 4237),
     (4253, 4253), (4348, 4348), (4957, 4959), (5906, 5908), (5938, 5939), (5970, 5971),
     (6002, 6003), (6068, 6069), (6071, 6077), (6086, 6086), (6089, 6099), (6103, 6103),
     (6109, 6109), (6155, 6159), (6211, 6211), (6277, 6278), (6313, 6313), (6432, 6434),
     (6439, 6440), (6450, 6450), (6457, 6459), (6679, 6680), (6683, 6683), (6742, 6742),
     (6744, 6750), (6752, 6752), (6754, 6754), (6757, 6764), (6771, 6780), (6783, 6783),
     (6823, 6823), (6832, 6862), (6912, 6915), (6964, 6964), (6966, 6970), (6972, 6972),
     (6978, 6978), (7019, 7027), (7040, 7041), (7074, 7077), (7080, 7081), (7083, 7085),
     (7142, 7142), (7144, 7145), (7149, 7149), (7151, 7153), (7212, 7219), (7222, 7223),
     (7288, 7293), (7376, 7378), (7380, 7392), (7394, 7400), (7405, 7405), (7412, 7412),
     (7416, 7417), (7468, 7530), (7544, 7544), (7579, 7679), (8125, 8125), (8127, 8129),
     (8141, 8143), (8157, 8159), (8173, 8175), (8189, 8190), (8203, 8207), (8216, 8217),
     (8228, 8228), (8231, 8231), (8234, 8238), (8288, 8292), (8294, 8303), (8305, 8305),
     (8319, 8319), (8336, 8348), (8400, 8432), (11388, 11389), (11503, 11505),
     (11631, 11631), (11647, 11647), (11744, 11775), (11823, 11823), (12293, 12293),
     (12330, 12333), (12337, 12341), (12347, 12347), (12441, 12446), (12540, 12542),
     (40981, 40981), (42232, 42237), (42508, 42508), (42607, 42610), (42612, 42621),
     (42623, 42623), (42652, 42655), (42736, 42737), (42752, 42785), (42864, 42864),
     (42888, 42890), (42994, 42996), (43000, 43001), (43010, 43010), (43014, 43014),
     (43019, 43019), (43045, 43046), (43052, 43052), (43204, 43205), (43232, 43249),
     (43263, 43263), (43302, 43309), (43335, 43345), (43392, 43394), (43443, 43443),
     (43446, 43449), (43452, 43453), (43471, 43471), (43493, 43494), (43561, 43566),
     (43569, 43570), (43573, 43574), (43587, 43587), (43596, 43596), (43632, 43632),
     (43644, 43644), (43696, 43696), (43698, 43700), (43703, 43704), (43710, 43711),
     (43713, 43713), (43741, 43741), (43756, 43757), (43763, 43764), (43766, 43766),
     (43867, 43871), (43881, 43883), (44005, 44005), (44008, 44008), (44013, 44013),
     (64286, 64286), (64434, 64450), (65024, 65039), (65043, 65043), (65056, 65071),
     (65106, 65106), (65109, 65109), (65279, 65279), (65287, 65287), (65294, 65294),
     (65306, 65306), (65342, 65342), (65344, 65344), (65392, 65392), (65438, 65439),
     (65507, 65507), (65529, 65531), (66045, 66045), (66272, 66272), (66422, 66426),
     (67456, 67461), (67463, 67504), (67506, 67514), (68097, 68099), (68101, 68102),
     (68108, 68111), (68152, 68154), (68159, 68159), (68325, 68326), (68900, 68903),
     (69291, 69292), (69446, 69456), (69506, 69509), (69633, 69633), (69688, 69702),
     (69744, 69744), (69747, 69748), (69759, 69761), (69811, 69814), (69817, 69818),
     (69821, 69821), (69826, 69826), (69837, 69837), (69888, 69890), (69927, 69931),
     (69933, 69940), (70003, 70003), (70016, 70017), (70070, 70078), (70089, 70092),
     (70095, 70095), (70191, 70193), (70196, 70196), (70198, 70199), (70206, 70206),
     (70367, 70367), (70371, 70378), (70400, 70401), (70459, 70460), (70464, 70464),
     (70502, 70508), (70512, 70516), (70712, 70719), (70722, 70724), (70726, 70726),
     (70750, 70750), (70835, 70840), (70842, 70842), (70847, 70848), (70850, 70851),
     (71090, 71093), (71100, 71101), (71103, 71104), (71132, 71133), (71219, 71226),
     (71229, 71229), (71231, 71232), (71339, 71339), (71341, 71341), (71344, 71349),
     (71351, 71351), (71453, 71455), (71458, 71461), (71463, 71467), (71727, 71735),
     (71737, 71738), (71995, 71996), (71998, 71998), (72003, 72003), (72148, 72151),
     (72154, 72155), (72160, 72160), (72193, 72202), (72243, 72248), (72251, 72254),
     (72263, 72263), (72273, 72278), (72281, 72283), (72330, 72342), (72344, 72345),
     (72752, 72758), (72760, 72765), (72767, 72767), (72850, 72871), (72874, 72880),
     (72882, 72883), (72885, 72886), (73009, 73014), (73018, 73018), (73020, 73021),
     (73023, 73029), (73031, 73031), (73104, 73105), (73109, 73109), (73111, 73111),
     (73459, 73460), (78896, 78904), (92912, 92916), (92976, 92982), (92992, 92995),
     (94031, 94031), (94095, 94111), (94176, 94177), (94179, 94180), (110576, 110579),
     (110581, 110587), (110589, 110590), (113821, 113822), (113824, 113827),
     (118528, 118573), (118576, 118598), (119143, 119145), (119155, 119170),
     (119173, 119179), (119210, 119213), (119362, 119364), (121344, 121398),
     (121403, 121452), (121461, 121461), (121476, 121476), (121499, 121503),
     (121505, 121519), (122880, 122886), (122888, 122904), (122907, 122913),
     (122915, 122916), (122918, 122922), (123184, 123197), (123566, 123566),
     (123628, 123631), (125136, 125142), (125252, 125259), (127995, 127999),
     (917505, 917505), (917536, 917631), (917760, 917999)]"

definition cased_ranges :: "(nat \<times> nat) list" where
  "cased_ranges =
    [(65, 90), (97, 122), (170, 170), (181, 181), (186, 186), (192, 214), (216, 246),
     (248, 442), (444, 447), (452, 659), (661, 696), (704, 705), (736, 740), (837, 837),
     (880, 883), (886, 887), (890, 893), (895, 895), (902, 902), (904, 906), (908, 908),
     (910, 929), (931, 1013), (1015, 1153), (1162, 1327), (1329, 1366), (1376, 1416),
     (4256, 4293), (4295, 4295), (4301, 4301), (4304, 4346), (4349, 4351), (5024, 5109),
     (5112, 5117), (7296, 7304), (7312, 7354), (7357, 7359), (7424, 7615), (7680, 7957),
     (7960, 7965), (7968, 8005), (8008, 8013), (8016, 8023), (8025, 8025), (8027, 8027),
     (8029, 8029), (8031, 8061), (8064, 8116), (8118, 8124), (8126, 8126), (8130, 8132),
     (8134, 8140), (8144, 8147), (8150, 8155), (8160, 8172), (8178, 8180), (8182, 8188),
     (8305, 8305), (8319, 8319), (8336, 8348), (8450, 8450), (8455, 8455), (8458, 8467),
     (8469, 8469), (8473, 8477), (8484, 8484), (8486, 8486), (8488, 8488), (8490, 8493),
     (8495, 8500), (8505, 8505), (8508, 8511), (8517, 8521), (8526, 8526), (8544, 8575),
     (8579, 8580), (9398, 9449), (11264, 11492), (11499, 11502), (11506, 11507),
     (11520, 11557), (11559, 11559), (11565, 11565), (42560, 42605), (42624, 42653),
     (42786, 42887), (42891, 42894), (42896, 42954), (42960, 42961), (42963, 42963),
     (42965, 42969), (42997, 42998), (43000, 43002), (43824, 43866), (43868, 43880),
     (43888, 43967), (64256, 64262), (64275, 64279), (65313, 65338), (65345, 65370),
     (66560, 66639), (66736, 66771), (66776, 66811), (66928, 66938), (66940, 66954),
     (66956, 66962), (66964, 66965), (66967, 66977), (66979, 66993), (66995, 67001),
     (67003, 67004), (67456, 67456), (67459, 67461), (67463, 67504), (67506, 67514),
     (68736, 68786), (68800, 68850), (71840, 71903), (93760, 93823), (119808, 119892),
     (119894, 119964), (119966, 119967), (119970, 119970), (119973, 119974),
     (119977, 119980), (119982, 119993), (119995, 119995), (119997, 120003),
     (120005, 120069), (120071, 120074), (120077, 120084), (120086, 120092),
     (120094, 120121), (120123, 120126), (120128, 120132), (120134, 120134),
     (120138, 120144), (120146, 120485), (120488, 120512), (120514, 120538),
     (120540, 120570), (120572, 120596), (120598, 120628), (120630, 120654),
     (120656, 120686), (120688, 120712), (120714, 120744), (120746, 120770),
     (120772, 120779), (122624, 122633), (122635, 122654), (125184, 125251),
     (127280, 127305), (127312, 127337), (127344, 127369)]"

definition in_ranges :: "(nat \<times> nat) list \<Rightarrow> nat \<Rightarrow> bool" where
  "in_ranges rs c = list_ex (\<lambda>r. fst r \<le> c \<and> c \<le> snd r) rs"

definition case_ignorable :: "nat \<Rightarrow> bool" where
  "case_ignorable c = in_ranges case_ignorable_ranges c"

definition cased :: "nat \<Rightarrow> bool" where
  "cased c = in_ranges cased_ranges c"

definition in_run :: "nat \<Rightarrow> nat \<times> nat \<times> nat \<times> nat \<Rightarrow> bool" where
  "in_run c r =
     (case r of (lo, hi, step, to) \<Rightarrow> lo \<le> c \<and> c \<le> hi \<and> (c - lo) mod step = 0)"

definition lower_char :: "nat \<Rightarrow> ustring" where
  "lower_char c =
     (if c = 304 then [105, 775]
      else case find (in_run c) lower_runs of
        None \<Rightarrow> [c]
      | Some (lo, hi, step, to) \<Rightarrow> [to + (c - lo)])"

text \<open>\<open>before\<close> holds the characters before the sigma, the nearest first.\<close>

definition final_sigma :: "ustring \<Rightarrow> ustring \<Rightarrow> bool" where
  "final_sigma before after =
     (case dropWhile case_ignorable before of
        [] \<Rightarrow> False
      | c # _ \<Rightarrow>
          cased c \<and>
          (case dropWhile case_ignorable after of [] \<Rightarrow> True | d # _ \<Rightarrow> \<not> cased d))"

fun lower_from :: "ustring \<Rightarrow> ustring \<Rightarrow> ustring" where
  "lower_from before [] = []"
| "lower_from before (c # cs) =
     (if c = 931 then [if final_sigma before cs then 962 else 963] else lower_char c)
       @ lower_from (c # before) cs"

definition lower :: "ustring \<Rightarrow> ustring" where
  "lower s = lower_from [] s"

text \<open>The code points for which \<open>str.isspace\<close> holds; the class \<open>\s\<close> of \<open>re\<close> is the same set.\<close>

definition is_space :: "nat \<Rightarrow> bool" where
  "is_space c = ((9 \<le> c \<and> c \<le> 13) \<or> (28 \<le> c \<and> c \<le> 32) \<or> c = 133 \<or> c = 160
     \<or> c = 5760 \<or> (8192 \<le> c \<and> c \<le> 8202) \<or> c = 8232 \<or> c = 8233 \<or> c = 8239
     \<or> c = 8287 \<or> c = 12288)"

definition strip :: "ustring \<Rightarrow> ustring" where
  "strip s = rev (dropWhile is_space (rev (dropWhile is_space s)))"

fun startswith :: "ustring \<Rightarrow> ustring \<Rightarrow> bool" where
  "startswith s [] = True"
| "startswith [] (p # ps) = False"
| "startswith (c # cs) (p # ps) = (c = p \<and> startswith cs ps)"

text \<open>\<open>contains s kw\<close> is Python's \<open>kw in s\<close> on strings: \<open>kw\<close> occurs in \<open>s\<close> as a substring.\<close>

fun contains :: "ustring \<Rightarrow> ustring \<Rightarrow> bool" where
  "contains [] kw = (kw = [])"
| "contains (c # cs) kw = (startswith (c # cs) kw \<or> contains cs kw)"

text \<open>\<open>any(kw in s for kw in kws)\<close>.\<close>

definition contains_any :: "ustring \<Rightarrow> ustring list \<Rightarrow> bool" where
  "contains_any s kws = list_ex (contains s) kws"

text \<open>\<open>s.replace(',', '')\<close>.\<close>

definition remove_commas :: "ustring \<Rightarrow> ustring" where
  "remove_commas s = filter (\<lambda>c. c \<noteq> 44) s"

section \<open>Exceptions\<close>

datatype exn = ValueError | KeyError | AttributeError | OtherError ustring

section \<open>Regular expressions of the fast pattern matcher\<close>

text \<open>
  The constructs that the twelve patterns of \<open>_ultra_fast_transaction_detection\<close> use.
  \<open>Digit\<close> is \<open>\d\<close>, which matches the decimal digits of every script,
  \<open>Opt\<close> and \<open>Star\<close> are the greedy \<open>?\<close> and \<open>*\<close>, \<open>Alt\<close> tries its left branch first, and
  \<open>Grp\<close> is the capturing group 1.
\<close>

datatype rx = Eps | Lit nat | Space | Digit | Cat rx rx | Alt rx rx | Opt rx | Star rx | Grp rx

text \<open>
  The decimal digits (category \<open>Nd\<close> of Unicode 14.0) come in runs of ten, from the digit
  zero to the digit nine of a script; \<open>digit_zeros\<close> lists the zeros.  \<open>\d\<close> matches these
  characters, and \<open>float\<close> reads each as the digit it stands for.
\<close>

definition digit_zeros :: "nat list" where
  "digit_zeros =
    [48, 1632, 1776, 1984, 2406, 2534, 2662, 2790, 2918, 3046, 3174, 3302, 3430, 3558,
     3664, 3792, 3872, 4160, 4240, 6112, 6160, 6470, 6608, 6784, 6800, 6992, 7088, 7232,
     7248, 42528, 43216, 43264, 43472, 43504, 43600, 44016, 65296, 66720, 68912, 69734,
     69872, 69942, 70096, 70384, 70736, 70864, 71248, 71360, 71472, 71904, 72016, 72784,
     73040, 73120, 92768, 92864, 93008, 120782, 120792, 120802, 120812, 120822, 123200,
     123632, 125264, 130032]"

definition digit_value :: "nat \<Rightarrow> nat option" where
  "digit_value c =
     (case find (\<lambda>z. z \<le> c \<and> c < z + 10) digit_zeros of
        None \<Rightarrow> None
      | Some z \<Rightarrow> Some (c - z))"

definition is_digit :: "nat \<Rightarrow> bool" where
  "is_digit c = (digit_value c \<noteq> None)"

definition plus :: "rx \<Rightarrow> rx" where
  "plus r = Cat r (Star r)"

definition seq :: "rx list \<Rightarrow> rx" where
  "seq rs = foldr Cat rs Eps"

definition word :: "ustring \<Rightarrow> rx" where
  "word s = foldr (\<lambda>c r. Cat (Lit c) r) s Eps"

text \<open>
  A matcher state is the text still to be read and the text captured by group 1.
  \<open>rx_match r st\<close> lists the states in which a match of \<open>r\<close> started at \<open>st\<close> can end, in
  the order in which a backtracking matcher tries them; the head is the match that
  \<open>re\<close> reports.
\<close>

type_synonym mstate = "ustring \<times> ustring option"

function rx_match :: "rx \<Rightarrow> mstate \<Rightarrow> mstate list" where
  "rx_match Eps st = [st]"
| "rx_match (Lit c) st =
     (case fst st of [] \<Rightarrow> [] | x # xs \<Rightarrow> if x = c then [(xs, snd st)] else [])"
| "rx_match Space st =
     (case fst st of [] \<Rightarrow> [] | x # xs \<Rightarrow> if is_space x then [(xs, snd st)] else [])"
| "rx_match Digit st =
     (case fst st of [] \<Rightarrow> [] | x # xs \<Rightarrow> if is_digit x then [(xs, snd st)] else [])"
| "rx_match (Cat a b) st = concat (map (rx_match b) (rx_match a st))"
| "rx_match (Alt a b) st = rx_match a st @ rx_match b st"
| "rx_match (Opt a) st = rx_match a st @ [st]"
| "rx_match (Star a) st =
     concat (map (rx_match (Star a))
       (filter (\<lambda>st'. length (fst st') < length (fst st)) (rx_match a st))) @ [st]"
| "rx_match (Grp a) st =
     map (\<lambda>st'. (fst st', Some (take (length (fst st) - length (fst st')) (fst st))))
       (rx_match a st)"
  by pat_completeness auto
termination
  by (relation "measures [\<lambda>(r, st). size r, \<lambda>(r, st). length (fst st)]") auto

text \<open>
  \<open>re.search\<close>: the match at the leftmost position where the pattern matches.  The
  result is the match object's \<open>group(1)\<close>.
\<close>

fun rx_search :: "rx \<Rightarrow> ustring \<Rightarrow> ustring option option" where
  "rx_search r [] = (case rx_match r ([], None) of [] \<Rightarrow> None | st # _ \<Rightarrow> Some (snd st))"
| "rx_search r (c # cs) =
     (case rx_match r (c # cs, None) of [] \<Rightarrow> rx_search r cs | st # _ \<Rightarrow> Some (snd st))"

text \<open>
  \<open>float(amount_str)\<close> on the spellings that group 1 can produce: decimal digits of any
  script, with an optional point and fraction.  The value of the float is represented by
  the exact decimal it is read from, so \<open>amount > 0\<close> is decided as on the float.  Every
  other spelling is a \<open>ValueError\<close> here; \<open>float\<close> accepts more of them (signs, exponents,
  \<open>inf\<close>, surrounding blanks), none of which group 1 can produce.
\<close>

definition dec_val :: "ustring \<Rightarrow> nat" where
  "dec_val s =
     foldl (\<lambda>a c. 10 * a + (case digit_value c of None \<Rightarrow> 0 | Some d \<Rightarrow> d)) 0 s"

definition py_float :: "ustring \<Rightarrow> exn + rat" where
  "py_float s =
     (let ip = takeWhile (\<lambda>c. c \<noteq> 46) s; rest = dropWhile (\<lambda>c. c \<noteq> 46) s in
      if rest = [] then
        (if ip \<noteq> [] \<and> list_all is_digit ip then Inr (of_nat (dec_val ip)) else Inl ValueError)
      else
        (let fp = tl rest in
         if list_all is_digit ip \<and> list_all is_digit fp \<and> (ip \<noteq> [] \<or> fp \<noteq> [])
         then Inr (of_nat (dec_val ip) + of_nat (dec_val fp) / 10 ^ length fp)
         else Inl ValueError))"

text \<open>
  The number \<open>(\d+(?:,\d{3})*(?:\.\d{2})?)\<close> and the currency prefix
  \<open>(?:rs\.?\s*|R\s*)?\<close>, where \<open>R\<close> stands for the rupee sign, code point 8377.
\<close>

definition amount_rx :: rx where
  "amount_rx = Grp (seq [plus Digit, Star (seq [Lit 44, Digit, Digit, Digit]),
     Opt (seq [Lit 46, Digit, Digit])])"

definition currency_rx :: rx where
  "currency_rx = Opt (Alt (seq [word (u ''rs''), Opt (Lit 46), Star Space])
     (seq [Lit 8377, Star Space]))"

text \<open>The pattern table, lines 69 to 87, in the source's order.\<close>

definition keyword_first :: "ustring \<Rightarrow> rx" where
  "keyword_first kw = seq [word kw, plus Space, currency_rx, amount_rx]"

definition patterns :: "(rx \<times> ustring) list" where
  "patterns =
    [(seq [word (u ''income''), plus Space, Opt (seq [word (u ''is''), plus Space]),
           currency_rx, amount_rx], u ''income''),
     (keyword_first (u ''earned''), u ''income''),
     (keyword_first (u ''received''), u ''income''),
     (keyword_first [2310, 2351], u ''income''),
     (keyword_first [2325, 2350, 2366, 2312], u ''income''),
     (seq [word (u ''expense''), plus Space, Opt (seq [word (u ''is''), plus Space]),
           currency_rx, amount_rx], u ''expense''),
     (keyword_first (u ''spent''), u ''expense''),
     (keyword_first (u ''paid''), u ''expense''),
     (keyword_first [2326, 2352, 2381, 2330], u ''expense''),
     (keyword_first [2326, 2352, 2381, 2330, 2366], u ''expense''),
     (seq [currency_rx, amount_rx, plus Space,
           Alt (word (u ''income'')) (word [2310, 2351])], u ''income''),
     (seq [currency_rx, amount_rx, plus Space,
           Alt (word (u ''expense'')) (word [2326, 2352, 2381, 2330])], u ''expense'')]"

section \<open>The collaborators: ledger, history sink, classifier, token service\<close>

text \<open>
  Texts that interpolate numbers, and the fixed texts of the clear commands and of the
  query answers, are kept as their template and its arguments; \<open>Str\<close> is a string given
  as it is.  \<open>tlang\<close> names the language of a template, and \<open>R\<close> in the comments stands
  for the rupee sign.
\<close>

datatype tlang = Lang_en | Lang_hi | Lang_ta | Lang_ml

datatype clear_cmd = Cmd_expenses | Cmd_income | Cmd_chat | Cmd_all

datatype msg_text =
    Str ustring
  | Income_descr rat                  \<comment> \<open>\<open>f"Income - R{amount}"\<close>\<close>
  | Expense_descr rat                 \<comment> \<open>\<open>f"Expense - R{amount}"\<close>\<close>
  | Item_descr rat ustring            \<comment> \<open>\<open>f"{quantity}x {name}"\<close>\<close>
  | Cleared_msg clear_cmd tlang       \<comment> \<open>the confirmations of lines 336 to 412\<close>
  | Profit_msg tlang rat rat rat rat  \<comment> \<open>income, expenses, net profit, margin\<close>
  | Loss_msg tlang rat rat rat rat    \<comment> \<open>income, expenses, \<open>abs(net_profit)\<close>, \<open>abs(profit_margin)\<close>\<close>
  | Break_even_msg tlang rat rat      \<comment> \<open>income, expenses\<close>
  | Profit_trouble_msg tlang
  | Income_total_msg tlang rat int    \<comment> \<open>total, count\<close>
  | No_income_msg tlang
  | Expense_total_msg tlang rat int
  | No_expense_msg tlang
  | Today_expense_msg tlang rat int
  | No_expense_today_msg tlang
  | Apology_msg tlang                 \<comment> \<open>the message of the failure response, line 755\<close>
  | Items_processed_msg nat           \<comment> \<open>\<open>f"Successfully processed {success_count} items!"\<close>\<close>
  | Confirmed_items_msg nat           \<comment> \<open>\<open>f"Confirmed {len(confirmed_items)} items"\<close>\<close>
  | Items_error_msg exn               \<comment> \<open>\<open>f"Error processing items: {str(e)}"\<close>\<close>

text \<open>
  The dictionaries that the collaborators return.  An absent key is \<open>None\<close>: \<open>d.get(k)\<close>
  is then falsy or the default, and \<open>d[k]\<close> raises \<open>KeyError\<close>.  A value has the type the
  program uses it at: amounts, quantities and totals are numbers (a float is represented by
  the number it stands for), texts are strings, and a JSON \<open>null\<close> is not told apart from an
  absent key.  The summaries carry all the keys that the program reads with \<open>d[k]\<close>; of the
  profit and loss summary, \<open>summary.profit_status\<close> is read and never used, and is left out.
\<close>

record result =
  res_success :: bool
  res_message :: "ustring option"

record profit_loss =
  pl_success :: bool
  pl_total_income :: rat
  pl_total_expenses :: rat
  pl_net_profit :: rat
  pl_profit_margin_percentage :: rat

record summary =
  sum_success :: bool
  sum_total :: rat
  sum_count :: int

record transaction =
  t_intent :: "ustring option"
  t_amount :: "rat option"
  t_description :: "ustring option"
  t_category :: "ustring option"
  t_product_name :: "ustring option"
  t_quantity :: "rat option"
  t_unit :: "ustring option"
  t_cost_per_unit :: "rat option"

record data =
  d_amount :: "rat option"
  d_description :: "ustring option"
  d_category :: "ustring option"
  d_items :: "ustring list option"

record intent_result =
  ir_intent :: "ustring option"
  ir_response_message :: "ustring option"
  ir_confidence :: "rat option"
  ir_is_business_related :: "bool option"
  ir_fallback_used :: "bool option"
  ir_action :: "ustring option"
  ir_primary_intent :: "ustring option"
  ir_transactions :: "transaction list option"
  ir_data :: "data option"

text \<open>
  Every call that \<open>backend/main.py\<close> makes to a collaborator.  The arguments are in the
  order given in the comments.
\<close>

datatype call =
    Get_user_id_from_token ustring
  | Add_income ustring rat msg_text ustring ustring "ustring option"
      \<comment> \<open>user id, amount, description, category, source, language\<close>
  | Add_expense ustring rat msg_text ustring ustring
      \<comment> \<open>user id, amount, description, category, source\<close>
  | Add_inventory_item ustring ustring rat ustring rat
      \<comment> \<open>user id, product name, quantity, unit, cost per unit\<close>
  | Clear_expenses ustring
  | Clear_income ustring
  | Clear_chat_history ustring
  | Clear_all_data ustring
  | Save_chat_history ustring msg_text msg_text ustring ustring
      \<comment> \<open>user id, message, response, message type, intent\<close>
  | Get_profit_loss_summary ustring
  | Get_income_summary ustring
  | Get_expense_summary ustring
  | Get_today_expenses ustring
  | Parse_intent ustring ustring ustring nat
      \<comment> \<open>message, language, chat mode; the seconds that \<open>thread.join\<close> waits\<close>

text \<open>
  What the classifier's thread has done when \<open>thread.join(timeout=15)\<close> returns: it is
  still alive, it has stored an error, or it has stored a result.
\<close>

datatype ai_outcome = Still_running | Raised exn | Returned intent_result

text \<open>
  The collaborators are not part of \<open>backend/main.py\<close>.  Each answers a call with an
  exception or a value, and the answer may depend on all the calls made before.
\<close>

record env =
  token_service :: "call list \<Rightarrow> call \<Rightarrow> exn + ustring option"
  ledger :: "call list \<Rightarrow> call \<Rightarrow> exn + result"
  history_sink :: "call list \<Rightarrow> call \<Rightarrow> exn + unit"
  profit_loss_report :: "call list \<Rightarrow> call \<Rightarrow> exn + profit_loss"
  summary_report :: "call list \<Rightarrow> call \<Rightarrow> exn + summary"
  classifier :: "call list \<Rightarrow> call \<Rightarrow> ai_outcome"

text \<open>
  A computation takes the calls made so far and returns an exception or a value, with
  the calls made so far extended by its own.
\<close>

type_synonym 'a io = "call list \<Rightarrow> (exn + 'a) \<times> call list"

definition ret :: "'a \<Rightarrow> 'a io" where
  "ret x tr = (Inr x, tr)"

definition raise :: "exn \<Rightarrow> 'a io" where
  "raise ex tr = (Inl ex, tr)"

definition lift :: "exn + 'a \<Rightarrow> 'a io" where
  "lift r tr = (r, tr)"

definition bind :: "'a io \<Rightarrow> ('a \<Rightarrow> 'b io) \<Rightarrow> 'b io" where
  "bind m f tr = (case m tr of (Inl ex, tr') \<Rightarrow> (Inl ex, tr') | (Inr x, tr') \<Rightarrow> f x tr')"

definition try_catch :: "'a io \<Rightarrow> (exn \<Rightarrow> 'a io) \<Rightarrow> 'a io" where
  "try_catch m h tr = (case m tr of (Inl ex, tr') \<Rightarrow> h ex tr' | (Inr x, tr') \<Rightarrow> (Inr x, tr'))"

definition invoke :: "(call list \<Rightarrow> call \<Rightarrow> exn + 'a) \<Rightarrow> call \<Rightarrow> 'a io" where
  "invoke answer c tr = (answer tr c, tr @ [c])"

text \<open>\<open>d[k]\<close> on a dictionary whose key may be absent.\<close>

definition subscript :: "'a option \<Rightarrow> 'a io" where
  "subscript v = (case v of None \<Rightarrow> raise KeyError | Some x \<Rightarrow> ret x)"

text \<open>The methods of \<open>supabase_business\<close>, as the calls they are.\<close>

definition add_income ::
  "env \<Rightarrow> ustring \<Rightarrow> rat \<Rightarrow> msg_text \<Rightarrow> ustring \<Rightarrow> ustring \<Rightarrow> ustring option \<Rightarrow> result io" where
  "add_income e user_id amount description category source language =
     invoke (ledger e) (Add_income user_id amount description category source language)"

definition add_expense ::
  "env \<Rightarrow> ustring \<Rightarrow> rat \<Rightarrow> msg_text \<Rightarrow> ustring \<Rightarrow> ustring \<Rightarrow> result io" where
  "add_expense e user_id amount description category source =
     invoke (ledger e) (Add_expense user_id amount description category source)"

definition add_inventory_item ::
  "env \<Rightarrow> ustring \<Rightarrow> ustring \<Rightarrow> rat \<Rightarrow> ustring \<Rightarrow> rat \<Rightarrow> result io" where
  "add_inventory_item e user_id product_name quantity unit cost_per_unit =
     invoke (ledger e) (Add_inventory_item user_id product_name quantity unit cost_per_unit)"

definition save_chat_history ::
  "env \<Rightarrow> ustring \<Rightarrow> msg_text \<Rightarrow> msg_text \<Rightarrow> ustring \<Rightarrow> ustring \<Rightarrow> unit io" where
  "save_chat_history e user_id message response message_type intent =
     invoke (history_sink e) (Save_chat_history user_id message response message_type intent)"

section \<open>Authentication helper\<close>

text \<open>
  \<open>authorization.split(" ")[1]\<close> for a string that starts with \<open>"Bearer "\<close>: the text
  between the first space and the next one.
\<close>

definition second_field :: "ustring \<Rightarrow> ustring" where
  "second_field s = takeWhile (\<lambda>c. c \<noteq> 32) (tl (dropWhile (\<lambda>c. c \<noteq> 32) s))"

definition default_user :: ustring where
  "default_user = u ''default_user''"

definition get_user_id_from_auth :: "env \<Rightarrow> ustring option \<Rightarrow> ustring io" where
  "get_user_id_from_auth e authorization =
     (case authorization of
        None \<Rightarrow> ret default_user
      | Some a \<Rightarrow>
          if a \<noteq> [] \<and> startswith a (u ''Bearer '') then
            bind (invoke (token_service e) (Get_user_id_from_token (second_field a)))
              (\<lambda>user_id. case user_id of
                 None \<Rightarrow> ret default_user
               | Some uid \<Rightarrow> if uid \<noteq> [] then ret uid else ret default_user)
          else ret default_user)"

section \<open>Fallback responder\<close>

text \<open>The canned texts of \<open>_get_smart_fallback_response\<close>, lines 148 to 196.\<close>

definition greeting_en :: ustring where  \<comment> \<open>line 149\<close>
  "greeting_en =
     u ''Hello! I'm Sakhi, your business assistant. I can help you tr''
     @ u ''ack income, expenses, and inventory. Try saying 'income 500'' @ [39]
     @ u '' or 'expense 200'!''"

definition greeting_hi :: ustring where  \<comment> \<open>line 151\<close>
  "greeting_hi =
     [2344, 2350, 2360, 2381, 2340, 2375, 33, 32, 2350, 2376, 2306, 32, 2360, 2326,
     2368, 32, 2361, 2370, 2306, 44, 32, 2310, 2346, 2325, 2368, 32, 2357, 2381, 2351,
     2366, 2346, 2366, 2352, 2367, 2325, 32, 2360, 2361, 2366, 2351, 2325, 2404, 32,
     2350, 2376, 2306, 32, 2310, 2346, 2325, 2368, 32, 2310, 2351, 44, 32, 2326, 2352,
     2381, 2330, 32, 2324, 2352, 32, 2311, 2344, 2381, 2357, 2375, 2306, 2335, 2352,
     2368, 32, 2335, 2381, 2352, 2376, 2325, 32, 2325, 2352, 2344, 2375, 32, 2350, 2375,
     2306, 32, 2350, 2342, 2342, 32, 2325, 2352, 32, 2360, 2325, 2340, 2368, 32, 2361,
     2370, 2306, 2404, 32, 39, 2310, 2351, 32, 53, 48, 48, 39, 32, 2351, 2366, 32, 39,
     2326, 2352, 2381, 2330, 32, 50, 48, 48, 39, 32, 2325, 2361, 2325, 2352, 32, 2342,
     2375, 2326, 2375, 2306, 33]"

definition greeting_ta :: ustring where  \<comment> \<open>line 153\<close>
  "greeting_ta =
     [2997, 2979, 2965, 3021, 2965, 2990, 3021, 33, 32, 2984, 3006, 2985, 3021, 32,
     2970, 2965, 3007, 44, 32, 2953, 2969, 3021, 2965, 2995, 3021, 32, 2997, 2979, 3007,
     2965, 32, 2953, 2980, 2997, 3007, 2991, 3006, 2995, 2992, 3021, 46, 32, 2984, 3006,
     2985, 3021, 32, 2953, 2969, 3021, 2965, 2995, 3021, 32, 2997, 2992, 3009, 2990,
     3006, 2985, 2990, 3021, 44, 32, 2970, 3014, 2994, 2997, 3009, 2965, 2995, 3021, 32,
     2990, 2993, 3021, 2993, 3009, 2990, 3021, 32, 2970, 2992, 2965, 3021, 2965, 3009,
     2965, 2995, 3016, 32, 2965, 2979, 3021, 2965, 3006, 2979, 3007, 2965, 3021, 2965,
     32, 2953, 2980, 2997, 32, 2990, 3009, 2975, 3007, 2991, 3009, 2990, 3021, 46, 32,
     39, 2997, 2992, 3009, 2990, 3006, 2985, 2990, 3021, 32, 53, 48, 48, 39, 32, 2949,
     2994, 3021, 2994, 2980, 3009, 32, 39, 2970, 3014, 2994, 2997, 3009, 32, 50, 48, 48,
     39, 32, 2958, 2985, 3021, 2993, 3009, 32, 2970, 3018, 2994, 3021, 2994, 3007, 32,
     2986, 3006, 2992, 3009, 2969, 3021, 2965, 2995, 3021, 33]"

definition greeting_ml :: ustring where  \<comment> \<open>line 155\<close>
  "greeting_ml =
     [3385, 3378, 3403, 33, 32, 3358, 3390, 3451, 32, 3384, 3350, 3391, 44, 32, 3368,
     3391, 3353, 3405, 3353, 3379, 3393, 3359, 3398, 32, 3372, 3391, 3384, 3391, 3368,
     3384, 3405, 32, 3333, 3384, 3391, 3384, 3405, 3377, 3405, 3377, 3368, 3405, 3377,
     3405, 46, 32, 3342, 3368, 3391, 3349, 3405, 3349, 3405, 32, 3368, 3391, 3353, 3405,
     3353, 3379, 3393, 3359, 3398, 32, 3381, 3376, 3393, 3374, 3390, 3368, 3330, 44, 32,
     3354, 3398, 3378, 3381, 3393, 3349, 3454, 44, 32, 3335, 3451, 3381, 3398, 3368,
     3405, 3377, 3377, 3391, 32, 3359, 3405, 3376, 3390, 3349, 3405, 3349, 3405, 32,
     3354, 3398, 3375, 3405, 3375, 3390, 3451, 32, 3384, 3385, 3390, 3375, 3391, 3349,
     3405, 3349, 3390, 3330, 46, 32, 39, 3381, 3376, 3393, 3374, 3390, 3368, 3330, 32,
     53, 48, 48, 39, 32, 3333, 3378, 3405, 3378, 3398, 3353, 3405, 3349, 3391, 3453, 32,
     39, 3354, 3398, 3378, 3381, 3405, 32, 50, 48, 48, 39, 32, 3342, 3368, 3405, 3368,
     3405, 32, 3370, 3377, 3358, 3405, 3358, 3393, 32, 3368, 3403, 3349, 3405, 3349,
     3394, 33]"

definition greeting_other :: ustring where  \<comment> \<open>line 157\<close>
  "greeting_other =
     u ''Hello! I'm Sakhi, your business assistant. I can help you tr''
     @ u ''ack income, expenses, and inventory!''"

definition greeting_text :: "ustring \<Rightarrow> ustring" where
  "greeting_text language =
     (if language = u ''en'' then greeting_en
     else if language = u ''hi'' then greeting_hi
     else if language = u ''ta'' then greeting_ta
     else if language = u ''ml'' then greeting_ml
     else greeting_other)"

definition help_en :: ustring where  \<comment> \<open>line 162\<close>
  "help_en =
     u ''I can help you with:\<newline>'' @ [8226]
     @ u '' Track income: 'income 500'\<newline>'' @ [8226]
     @ u '' Track expenses: 'expense 200'\<newline>'' @ [8226]
     @ u '' Add inventory: 'inventory rice 10kg'\<newline>'' @ [8226]
     @ u '' Upload receipts for automatic processing\<newline>'' @ [8226]
     @ u '' Clear data: 'clear all'' @ [39]"

definition help_hi :: ustring where  \<comment> \<open>line 164\<close>
  "help_hi =
     [2350, 2376, 2306, 32, 2311, 2344, 2350, 2375, 2306, 32, 2310, 2346, 2325, 2368,
     32, 2350, 2342, 2342, 32, 2325, 2352, 32, 2360, 2325, 2340, 2368, 32, 2361, 2370,
     2306, 58, 10, 8226, 32, 2310, 2351, 32, 2335, 2381, 2352, 2376, 2325, 32, 2325,
     2352, 2375, 2306, 58, 32, 39, 2310, 2351, 32, 53, 48, 48, 39, 10, 8226, 32, 2326,
     2352, 2381, 2330, 32, 2335, 2381, 2352, 2376, 2325, 32, 2325, 2352, 2375, 2306, 58,
     32, 39, 2326, 2352, 2381, 2330, 32, 50, 48, 48, 39, 10, 8226, 32, 2311, 2344, 2381,
     2357, 2375, 2306, 2335, 2352, 2368, 32, 2332, 2379, 2337, 2364, 2375, 2306, 58, 32,
     39, 2311, 2344, 2381, 2357, 2375, 2306, 2335, 2352, 2368, 32, 2330, 2366, 2357,
     2354, 32, 49, 48, 2325, 2367, 2354, 2379, 39, 10, 8226, 32, 2352, 2360, 2368, 2342,
     2375, 2306, 32, 2309, 2346, 2354, 2379, 2337, 32, 2325, 2352, 2375, 2306, 10, 8226,
     32, 2337, 2375, 2335, 2366, 32, 2360, 2366, 2347, 32, 2325, 2352, 2375, 2306, 58,
     32, 39, 2360, 2348, 32, 2360, 2366, 2347, 39]"

definition help_ta :: ustring where  \<comment> \<open>line 166\<close>
  "help_ta =
     [2984, 3006, 2985, 3021, 32, 2951, 2997, 2993, 3021, 2993, 3007, 2994, 3021, 32,
     2953, 2969, 3021, 2965, 2995, 3009, 2965, 3021, 2965, 3009, 32, 2953, 2980, 2997,
     32, 2990, 3009, 2975, 3007, 2991, 3009, 2990, 3021, 58, 10, 8226, 32, 2997, 2992,
     3009, 2990, 3006, 2985, 2990, 3021, 32, 2965, 2979, 3021, 2965, 3006, 2979, 3007,
     2965, 3021, 2965, 58, 32, 39, 2997, 2992, 3009, 2990, 3006, 2985, 2990, 3021, 32,
     53, 48, 48, 39, 10, 8226, 32, 2970, 3014, 2994, 2997, 3009, 32, 2965, 2979, 3021,
     2965, 3006, 2979, 3007, 2965, 3021, 2965, 58, 32, 39, 2970, 3014, 2994, 2997, 3009,
     32, 50, 48, 48, 39, 10, 8226, 32, 2970, 2992, 2965, 3021, 2965, 3009, 32, 2970,
     3015, 2992, 3021, 2965, 3021, 2965, 58, 32, 39, 2970, 2992, 2965, 3021, 2965, 3009,
     32, 2949, 2992, 3007, 2970, 3007, 32, 49, 48, 2965, 3007, 2994, 3019, 39, 10, 8226,
     32, 2992, 2970, 3008, 2980, 3009, 2965, 2995, 3016, 32, 2986, 2980, 3007, 2997,
     3015, 2993, 3021, 2993, 2997, 3009, 2990, 3021, 10, 8226, 32, 2980, 2992, 2997,
     3009, 32, 2949, 2996, 3007, 2965, 3021, 2965, 58, 32, 39, 2949, 2985, 3016, 2980,
     3021, 2980, 3009, 2990, 3021, 32, 2949, 2996, 3007, 39]"

definition help_ml :: ustring where  \<comment> \<open>line 168\<close>
  "help_ml =
     [3342, 3368, 3391, 3349, 3405, 3349, 3405, 32, 3335, 3381, 3375, 3391, 3453, 32,
     3368, 3391, 3353, 3405, 3353, 3379, 3398, 32, 3384, 3385, 3390, 3375, 3391, 3349,
     3405, 3349, 3390, 3451, 32, 3349, 3380, 3391, 3375, 3393, 3330, 3405, 58, 10, 8226,
     32, 3381, 3376, 3393, 3374, 3390, 3368, 3330, 32, 3359, 3405, 3376, 3390, 3349,
     3405, 3349, 3405, 58, 32, 39, 3381, 3376, 3393, 3374, 3390, 3368, 3330, 32, 53, 48,
     48, 39, 10, 8226, 32, 3354, 3398, 3378, 3381, 3405, 32, 3359, 3405, 3376, 3390,
     3349, 3405, 3349, 3405, 58, 32, 39, 3354, 3398, 3378, 3381, 3405, 32, 50, 48, 48,
     39, 10, 8226, 32, 3335, 3451, 3381, 3398, 3368, 3405, 3377, 3377, 3391, 32, 3354,
     3399, 3452, 3349, 3405, 3349, 3393, 3349, 58, 32, 39, 3335, 3451, 3381, 3398, 3368,
     3405, 3377, 3377, 3391, 32, 3333, 3376, 3391, 32, 49, 48, 3349, 3391, 3378, 3403,
     39, 10, 8226, 32, 3376, 3384, 3392, 3364, 3393, 3349, 3454, 32, 3333, 3370, 3405,
     8204, 3378, 3403, 3361, 3405, 32, 3354, 3398, 3375, 3405, 3375, 3393, 3349, 10,
     8226, 32, 3361, 3390, 3377, 3405, 3377, 32, 3374, 3390, 3375, 3405, 3349, 3405,
     3349, 3393, 3349, 58, 32, 39, 3342, 3378, 3405, 3378, 3390, 3330, 32, 3374, 3390,
     3375, 3405, 3349, 3405, 3349, 3393, 3349, 39]"

definition help_other :: ustring where  \<comment> \<open>line 170\<close>
  "help_other =
     u ''I can help you track income, expenses, inventory, and proces''
     @ u ''s receipts!''"

definition help_text :: "ustring \<Rightarrow> ustring" where
  "help_text language =
     (if language = u ''en'' then help_en
     else if language = u ''hi'' then help_hi
     else if language = u ''ta'' then help_ta
     else if language = u ''ml'' then help_ml
     else help_other)"

definition how_en :: ustring where  \<comment> \<open>line 175\<close>
  "how_en =
     u ''You can interact with me in simple ways:\<newline>'' @ [8226]
     @ u '' Say 'income 1000' to add income\<newline>'' @ [8226]
     @ u '' Say 'expense 500' to add expense\<newline>'' @ [8226]
     @ u '' Upload receipt photos for automatic processing\<newline>'' @ [8226]
     @ u '' Ask me about your business data anytime!''"

definition how_hi :: ustring where  \<comment> \<open>line 177\<close>
  "how_hi =
     [2310, 2346, 32, 2350, 2369, 2333, 2360, 2375, 32, 2310, 2360, 2366, 2344, 32,
     2340, 2352, 2368, 2325, 2379, 2306, 32, 2360, 2375, 32, 2348, 2366, 2340, 32, 2325,
     2352, 32, 2360, 2325, 2340, 2375, 32, 2361, 2376, 2306, 58, 10, 8226, 32, 39, 2310,
     2351, 32, 49, 48, 48, 48, 39, 32, 2325, 2361, 2375, 2306, 32, 2310, 2351, 32, 2332,
     2379, 2337, 2364, 2344, 2375, 32, 2325, 2375, 32, 2354, 2367, 2319, 10, 8226, 32,
     39, 2326, 2352, 2381, 2330, 32, 53, 48, 48, 39, 32, 2325, 2361, 2375, 2306, 32,
     2326, 2352, 2381, 2330, 32, 2332, 2379, 2337, 2364, 2344, 2375, 32, 2325, 2375, 32,
     2354, 2367, 2319, 10, 8226, 32, 2352, 2360, 2368, 2342, 32, 2325, 2368, 32, 2347,
     2379, 2335, 2379, 32, 2309, 2346, 2354, 2379, 2337, 32, 2325, 2352, 2375, 2306, 10,
     8226, 32, 2325, 2349, 2368, 32, 2349, 2368, 32, 2309, 2346, 2344, 2375, 32, 2357,
     2381, 2351, 2366, 2346, 2366, 2352, 32, 2325, 2375, 32, 2348, 2366, 2352, 2375, 32,
     2350, 2375, 2306, 32, 2346, 2370, 2331, 2375, 2306, 33]"

definition how_ta :: ustring where  \<comment> \<open>line 179\<close>
  "how_ta =
     [2984, 3008, 2969, 3021, 2965, 2995, 3021, 32, 2958, 2985, 3021, 2985, 3009, 2975,
     2985, 3021, 32, 2958, 2995, 3007, 2991, 32, 2997, 2996, 3007, 2965, 2995, 3007,
     2994, 3021, 32, 2986, 3015, 2970, 2994, 3006, 2990, 3021, 58, 10, 8226, 32, 2997,
     2992, 3009, 2990, 3006, 2985, 2990, 3021, 32, 2970, 3015, 2992, 3021, 2965, 3021,
     2965, 32, 39, 2997, 2992, 3009, 2990, 3006, 2985, 2990, 3021, 32, 49, 48, 48, 48,
     39, 32, 2958, 2985, 3021, 2993, 3009, 32, 2970, 3018, 2994, 3021, 2994, 3009, 2969,
     3021, 2965, 2995, 3021, 10, 8226, 32, 2970, 3014, 2994, 2997, 3009, 32, 2970, 3015,
     2992, 3021, 2965, 3021, 2965, 32, 39, 2970, 3014, 2994, 2997, 3009, 32, 53, 48, 48,
     39, 32, 2958, 2985, 3021, 2993, 3009, 32, 2970, 3018, 2994, 3021, 2994, 3009, 2969,
     3021, 2965, 2995, 3021, 10, 8226, 32, 2992, 2970, 3008, 2980, 3009, 32, 2986, 3009,
     2965, 3016, 2986, 3021, 2986, 2975, 2969, 3021, 2965, 2995, 3016, 32, 2986, 2980,
     3007, 2997, 3015, 2993, 3021, 2993, 2997, 3009, 2990, 3021, 10, 8226, 32, 2958,
     2986, 3021, 2986, 3019, 2980, 3009, 32, 2997, 3015, 2979, 3021, 2975, 3009, 2990,
     3006, 2985, 3006, 2994, 3009, 2990, 3021, 32, 2953, 2969, 3021, 2965, 2995, 3021,
     32, 2997, 2979, 3007, 2965, 2980, 3021, 2980, 3016, 2986, 3021, 32, 2986, 2993,
     3021, 2993, 3007, 32, 2965, 3015, 2995, 3009, 2969, 3021, 2965, 2995, 3021, 33]"

definition how_ml :: ustring where  \<comment> \<open>line 181\<close>
  "how_ml =
     [3368, 3391, 3353, 3405, 3353, 3454, 3349, 3405, 3349, 3405, 32, 3342, 3368, 3405,
     3368, 3403, 3359, 3405, 32, 3378, 3379, 3391, 3364, 3374, 3390, 3375, 32, 3376,
     3392, 3364, 3391, 3349, 3379, 3391, 3453, 32, 3384, 3330, 3384, 3390, 3376, 3391,
     3349, 3405, 3349, 3390, 3330, 58, 10, 8226, 32, 3381, 3376, 3393, 3374, 3390, 3368,
     3330, 32, 3354, 3399, 3452, 3349, 3405, 3349, 3390, 3451, 32, 39, 3381, 3376, 3393,
     3374, 3390, 3368, 3330, 32, 49, 48, 48, 48, 39, 32, 3342, 3368, 3405, 3368, 3405,
     32, 3370, 3377, 3375, 3393, 3349, 10, 8226, 32, 3354, 3398, 3378, 3381, 3405, 32,
     3354, 3399, 3452, 3349, 3405, 3349, 3390, 3451, 32, 39, 3354, 3398, 3378, 3381,
     3405, 32, 53, 48, 48, 39, 32, 3342, 3368, 3405, 3368, 3405, 32, 3370, 3377, 3375,
     3393, 3349, 10, 8226, 32, 3376, 3384, 3392, 3364, 3405, 32, 3371, 3403, 3359, 3405,
     3359, 3403, 3349, 3454, 32, 3333, 3370, 3405, 8204, 3378, 3403, 3361, 3405, 32,
     3354, 3398, 3375, 3405, 3375, 3393, 3349, 10, 8226, 32, 3342, 3370, 3405, 3370,
     3403, 3454, 32, 3381, 3399, 3363, 3374, 3398, 3353, 3405, 3349, 3391, 3378, 3393,
     3330, 32, 3368, 3391, 3353, 3405, 3353, 3379, 3393, 3359, 3398, 32, 3372, 3391,
     3384, 3391, 3368, 3384, 3391, 3368, 3398, 3349, 3405, 3349, 3393, 3377, 3391, 3354,
     3405, 3354, 3405, 32, 3354, 3403, 3366, 3391, 3349, 3405, 3349, 3393, 3349, 33]"

definition how_other :: ustring where  \<comment> \<open>line 183\<close>
  "how_other =
     u ''You can say 'income 1000', 'expense 500', or upload receipt '' @ u ''photos!''"

definition how_text :: "ustring \<Rightarrow> ustring" where
  "how_text language =
     (if language = u ''en'' then how_en
     else if language = u ''hi'' then how_hi
     else if language = u ''ta'' then how_ta
     else if language = u ''ml'' then how_ml
     else how_other)"

definition default_en :: ustring where  \<comment> \<open>line 188\<close>
  "default_en =
     u ''I'm here to help with your business! Try: 'income 500', 'exp''
     @ u ''ense 200', or upload a receipt photo.''"

definition default_hi :: ustring where  \<comment> \<open>line 190\<close>
  "default_hi =
     [2350, 2376, 2306, 32, 2310, 2346, 2325, 2375, 32, 2357, 2381, 2351, 2366, 2346,
     2366, 2352, 32, 2350, 2375, 2306, 32, 2350, 2342, 2342, 32, 2325, 2375, 32, 2354,
     2367, 2319, 32, 2351, 2361, 2366, 2305, 32, 2361, 2370, 2305, 33, 32, 2325, 2379,
     2358, 2367, 2358, 32, 2325, 2352, 2375, 2306, 58, 32, 39, 2310, 2351, 32, 53, 48,
     48, 39, 44, 32, 39, 2326, 2352, 2381, 2330, 32, 50, 48, 48, 39, 44, 32, 2351, 2366,
     32, 2352, 2360, 2368, 2342, 32, 2325, 2368, 32, 2347, 2379, 2335, 2379, 32, 2309,
     2346, 2354, 2379, 2337, 32, 2325, 2352, 2375, 2306, 2404]"

definition default_ta :: ustring where  \<comment> \<open>line 192\<close>
  "default_ta =
     [2984, 3006, 2985, 3021, 32, 2953, 2969, 3021, 2965, 2995, 3021, 32, 2997, 2979,
     3007, 2965, 2980, 3021, 2980, 3007, 2993, 3021, 2965, 3009, 32, 2953, 2980, 2997,
     32, 2951, 2969, 3021, 2965, 3015, 32, 2951, 2992, 3009, 2965, 3021, 2965, 3007,
     2993, 3015, 2985, 3021, 33, 32, 2990, 3009, 2991, 2993, 3021, 2970, 3007, 32, 2970,
     3014, 2991, 3021, 2991, 3009, 2969, 3021, 2965, 2995, 3021, 58, 32, 39, 2997, 2992,
     3009, 2990, 3006, 2985, 2990, 3021, 32, 53, 48, 48, 39, 44, 32, 39, 2970, 3014,
     2994, 2997, 3009, 32, 50, 48, 48, 39, 44, 32, 2949, 2994, 3021, 2994, 2980, 3009,
     32, 2992, 2970, 3008, 2980, 3009, 32, 2986, 3009, 2965, 3016, 2986, 3021, 2986,
     2975, 2990, 3021, 32, 2986, 2980, 3007, 2997, 3015, 2993, 3021, 2993, 2997, 3009,
     2990, 3021, 46]"

definition default_ml :: ustring where  \<comment> \<open>line 194\<close>
  "default_ml =
     [3358, 3390, 3451, 32, 3368, 3391, 3353, 3405, 3353, 3379, 3393, 3359, 3398, 32,
     3372, 3391, 3384, 3391, 3368, 3384, 3391, 3368, 3398, 32, 3384, 3385, 3390, 3375,
     3391, 3349, 3405, 3349, 3390, 3451, 32, 3335, 3381, 3391, 3359, 3398, 3375, 3393,
     3363, 3405, 3359, 3405, 33, 32, 3382, 3405, 3376, 3374, 3391, 3349, 3405, 3349,
     3393, 3349, 58, 32, 39, 3381, 3376, 3393, 3374, 3390, 3368, 3330, 32, 53, 48, 48,
     39, 44, 32, 39, 3354, 3398, 3378, 3381, 3405, 32, 50, 48, 48, 39, 44, 32, 3333,
     3378, 3405, 3378, 3398, 3353, 3405, 3349, 3391, 3453, 32, 3376, 3384, 3392, 3364,
     3405, 32, 3371, 3403, 3359, 3405, 3359, 3403, 32, 3333, 3370, 3405, 8204, 3378,
     3403, 3361, 3405, 32, 3354, 3398, 3375, 3405, 3375, 3393, 3349, 46]"

definition default_other :: ustring where  \<comment> \<open>line 196\<close>
  "default_other =
     u ''I'm here to help with your business! Try: 'income 500', 'exp''
     @ u ''ense 200', or upload a receipt.''"

definition default_text :: "ustring \<Rightarrow> ustring" where
  "default_text language =
     (if language = u ''en'' then default_en
     else if language = u ''hi'' then default_hi
     else if language = u ''ta'' then default_ta
     else if language = u ''ml'' then default_ml
     else default_other)"



definition greeting_words :: "ustring list" where
  "greeting_words = [u ''hi'', u ''hello'', u ''hey'',
     [2344, 2350, 2360, 2381, 2340, 2375], [2361, 2376, 2354, 2379],
     [2997, 2979, 2965, 3021, 2965, 2990, 3021], [3385, 3378, 3403]]"

definition help_words :: "ustring list" where
  "help_words = [u ''help'', [2350, 2342, 2342], [2953, 2980, 2997, 3007],
     [3384, 3385, 3390, 3375, 3330]]"

definition how_words :: "ustring list" where
  "how_words = [u ''how'', [2325, 2376, 2360, 2375], [2958, 2986, 3021, 2986, 2975, 3007],
     [3342, 3353, 3405, 3353, 3368, 3398]]"

datatype category = Greeting | Help_request | How_request | Default_category

definition categorize :: "ustring \<Rightarrow> category" where
  "categorize message =
     (let message_lower = strip (lower message) in
      if contains_any message_lower greeting_words then Greeting
      else if contains_any message_lower help_words then Help_request
      else if contains_any message_lower how_words then How_request
      else Default_category)"

definition canned_text :: "category \<Rightarrow> ustring \<Rightarrow> ustring" where
  "canned_text c language =
     (case c of
        Greeting \<Rightarrow> greeting_text language
      | Help_request \<Rightarrow> help_text language
      | How_request \<Rightarrow> how_text language
      | Default_category \<Rightarrow> default_text language)"

definition get_smart_fallback_response :: "ustring \<Rightarrow> ustring \<Rightarrow> intent_result" where
  "get_smart_fallback_response message language =
     \<lparr>ir_intent = Some (u ''conversational''),
      ir_response_message = Some (canned_text (categorize message) language),
      ir_confidence = Some (8 / 10),
      ir_is_business_related = Some True,
      ir_fallback_used = Some True,
      ir_action = None,
      ir_primary_intent = None,
      ir_transactions = None,
      ir_data = None\<rparr>"

section \<open>Responses to the caller\<close>

text \<open>The JSON object returned to the caller; a key that a response does not carry is \<open>None\<close>.\<close>

record response =
  resp_status :: nat
  resp_success :: bool
  resp_message :: msg_text
  resp_intent :: "ustring option"
  resp_confidence :: "rat option"
  resp_business_results :: "result list option"
  resp_transactions_processed :: "nat option"
  resp_processed_count :: "nat option"
  resp_fast_detection :: "bool option"
  resp_is_business_related :: "bool option"
  resp_needs_clarification :: "bool option"
  resp_clarification_items :: "ustring list option"
  resp_error :: "exn option"

definition ok_response :: "msg_text \<Rightarrow> ustring option \<Rightarrow> result list \<Rightarrow> response" where
  "ok_response message intent business_results =
     \<lparr>resp_status = 200, resp_success = True, resp_message = message, resp_intent = intent,
      resp_confidence = None, resp_business_results = Some business_results,
      resp_transactions_processed = None, resp_processed_count = None,
      resp_fast_detection = None, resp_is_business_related = None,
      resp_needs_clarification = None, resp_clarification_items = None, resp_error = None\<rparr>"

definition get_or :: "'a \<Rightarrow> 'a option \<Rightarrow> 'a" where
  "get_or d v = (case v of None \<Rightarrow> d | Some x \<Rightarrow> x)"

text \<open>The truth value of an optional number and of an optional string or list.\<close>

definition truthy_num :: "rat option \<Rightarrow> bool" where
  "truthy_num v = (case v of None \<Rightarrow> False | Some x \<Rightarrow> x \<noteq> 0)"

definition truthy_seq :: "'a list option \<Rightarrow> bool" where
  "truthy_seq v = (case v of None \<Rightarrow> False | Some xs \<Rightarrow> xs \<noteq> [])"

definition tlang4 :: "ustring \<Rightarrow> tlang" where
  "tlang4 language =
     (if language = u ''hi'' then Lang_hi else if language = u ''ta'' then Lang_ta
      else if language = u ''ml'' then Lang_ml else Lang_en)"

definition tlang2 :: "ustring \<Rightarrow> tlang" where
  "tlang2 language = (if language = u ''hi'' then Lang_hi else Lang_en)"

section \<open>Fast pattern matcher\<close>

text \<open>The body of the \<open>try\<close> of one loop iteration, lines 93 to 134; \<open>Some\<close> is its \<open>return\<close>.\<close>

definition try_pattern ::
  "env \<Rightarrow> ustring \<Rightarrow> ustring \<Rightarrow> ustring \<Rightarrow> ustring \<Rightarrow> ustring option \<Rightarrow> response option io" where
  "try_pattern e message language user_id transaction_type group1 =
     bind (case group1 of None \<Rightarrow> raise AttributeError | Some g \<Rightarrow> ret (remove_commas g))
       (\<lambda>amount_str.
     bind (lift (py_float amount_str)) (\<lambda>amount.
       if amount > 0 then
         bind (if transaction_type = u ''income''
               then add_income e user_id amount (Income_descr amount) (u ''General'')
                      (u ''fast_detection'') (Some language)
               else add_expense e user_id amount (Expense_descr amount) (u ''General'')
                      (u ''fast_detection''))
           (\<lambda>result.
              if res_success result then
                bind (subscript (res_message result)) (\<lambda>m.
                bind (save_chat_history e user_id (Str message) (Str m) (u ''text'')
                        transaction_type) (\<lambda>_.
                ret (Some ((ok_response (Str m) (Some transaction_type) [result])
                  \<lparr>resp_confidence := Some (98 / 100),
                   resp_transactions_processed := Some 1,
                   resp_fast_detection := Some True\<rparr>))))
              else ret None)
       else ret None))"

text \<open>The loop over the pattern table: \<open>except (ValueError, KeyError): continue\<close>.\<close>

fun fast_loop ::
  "env \<Rightarrow> ustring \<Rightarrow> ustring \<Rightarrow> ustring \<Rightarrow> ustring \<Rightarrow> (rx \<times> ustring) list \<Rightarrow> response option io" where
  "fast_loop e message message_lower language user_id [] = ret None"
| "fast_loop e message message_lower language user_id (p # ps) =
     (case rx_search (fst p) message_lower of
        None \<Rightarrow> fast_loop e message message_lower language user_id ps
      | Some group1 \<Rightarrow>
          bind (try_catch (try_pattern e message language user_id (snd p) group1)
                  (\<lambda>ex. if ex = ValueError \<or> ex = KeyError then ret None else raise ex))
            (\<lambda>r. case r of
               Some x \<Rightarrow> ret (Some x)
             | None \<Rightarrow> fast_loop e message message_lower language user_id ps))"

definition ultra_fast_transaction_detection ::
  "env \<Rightarrow> ustring \<Rightarrow> ustring \<Rightarrow> ustring \<Rightarrow> response option io" where
  "ultra_fast_transaction_detection e message language user_id =
     fast_loop e message (strip (lower message)) language user_id patterns"

section \<open>Command interpreter\<close>

definition clear_expense_phrases :: "ustring list" where
  "clear_expense_phrases =
     [u ''clear expense'', u ''delete expense'', u ''remove expense'', u ''reset expense'',
      u ''make expense 0'', u ''expense to 0'',
      [2326, 2352, 2381, 2330, 32, 2360, 2366, 2347],
      [2326, 2352, 2381, 2330, 32, 2361, 2335, 2366],
      [2326, 2352, 2381, 2330, 32, 2358, 2370, 2344, 2381, 2351]]"

definition clear_income_phrases :: "ustring list" where
  "clear_income_phrases =
     [u ''clear income'', u ''delete income'', u ''remove income'', u ''reset income'',
      u ''make income 0'', u ''income to 0'',
      [2310, 2351, 32, 2360, 2366, 2347],
      [2310, 2351, 32, 2361, 2335, 2366],
      [2310, 2351, 32, 2358, 2370, 2344, 2381, 2351]]"

definition clear_chat_phrases :: "ustring list" where
  "clear_chat_phrases =
     [u ''clear chat'', u ''delete chat'', u ''remove chat'', u ''reset chat'',
      u ''clear history'', u ''delete history'',
      [2330, 2376, 2335, 32, 2360, 2366, 2347],
      [2330, 2376, 2335, 32, 2361, 2335, 2366],
      [2311, 2340, 2367, 2361, 2366, 2360, 32, 2360, 2366, 2347]]"

definition clear_all_phrases :: "ustring list" where
  "clear_all_phrases =
     [u ''clear all'', u ''delete all'', u ''reset all'', u ''clear everything'',
      u ''reset everything'',
      [2360, 2348, 32, 2360, 2366, 2347],
      [2360, 2348, 32, 2361, 2335, 2366],
      [2360, 2348, 32, 2325, 2369, 2331, 32, 2360, 2366, 2347]]"

text \<open>\<open>message_text\<close> of a clear command: a fixed text for the four languages, else the ledger's.\<close>

definition cleared_text :: "clear_cmd \<Rightarrow> ustring \<Rightarrow> result \<Rightarrow> msg_text io" where
  "cleared_text cmd language result =
     (if language = u ''en'' then ret (Cleared_msg cmd Lang_en)
      else if language = u ''hi'' then ret (Cleared_msg cmd Lang_hi)
      else if language = u ''ta'' then ret (Cleared_msg cmd Lang_ta)
      else if language = u ''ml'' then ret (Cleared_msg cmd Lang_ml)
      else bind (subscript (res_message result)) (\<lambda>m. ret (Str m)))"

definition run_clear ::
  "env \<Rightarrow> clear_cmd \<Rightarrow> call \<Rightarrow> ustring \<Rightarrow> ustring \<Rightarrow> response option io" where
  "run_clear e cmd c language intent =
     bind (invoke (ledger e) c) (\<lambda>result.
     bind (cleared_text cmd language result) (\<lambda>message_text.
     ret (Some (ok_response message_text (Some intent) [result]))))"

text \<open>Lines 328 to 421; \<open>None\<close> when no phrase occurs in the message.\<close>

definition clear_commands ::
  "env \<Rightarrow> ustring \<Rightarrow> ustring \<Rightarrow> ustring \<Rightarrow> response option io" where
  "clear_commands e message language user_id =
     (let message_lower = lower message in
      if contains_any message_lower clear_expense_phrases then
        run_clear e Cmd_expenses (Clear_expenses user_id) language (u ''expense_clear'')
      else if contains_any message_lower clear_income_phrases then
        run_clear e Cmd_income (Clear_income user_id) language (u ''income_clear'')
      else if contains_any message_lower clear_chat_phrases then
        run_clear e Cmd_chat (Clear_chat_history user_id) language (u ''chat_clear'')
      else if contains_any message_lower clear_all_phrases then
        run_clear e Cmd_all (Clear_all_data user_id) language (u ''all_clear'')
      else ret None)"

section \<open>Classifier gateway\<close>

definition join_timeout :: nat where
  "join_timeout = 15"

text \<open>
  Lines 424 to 459.  The thread runs \<open>ai_processor.parse_intent\<close>, and the caller waits
  for it with \<open>thread.join(timeout=15)\<close>; \<open>run_thread\<close> is the state of the thread when
  \<open>join\<close> returns.  A result of the classifier is taken to be a dictionary.
\<close>

definition run_thread :: "env \<Rightarrow> ustring \<Rightarrow> ustring \<Rightarrow> ustring \<Rightarrow> ai_outcome io" where
  "run_thread e message language chat_mode tr =
     (Inr (classifier e tr (Parse_intent message language chat_mode join_timeout)),
      tr @ [Parse_intent message language chat_mode join_timeout])"

definition classify :: "env \<Rightarrow> ustring \<Rightarrow> ustring \<Rightarrow> ustring \<Rightarrow> intent_result io" where
  "classify e message language chat_mode =
     try_catch
       (bind (run_thread e message language chat_mode) (\<lambda>outcome.
          case outcome of
            Still_running \<Rightarrow> ret (get_smart_fallback_response message language)
          | Raised ex \<Rightarrow> raise ex
          | Returned r \<Rightarrow> ret r))
       (\<lambda>ex. ret (get_smart_fallback_response message language))"

section \<open>Transaction reconciler\<close>

text \<open>
  One iteration of the loop of lines 519 to 549: the ledger's result when the item is
  applied, \<open>None\<close> when no branch takes it.  \<open>transaction["intent"]\<close> raises \<open>KeyError\<close>
  when the key is absent.
\<close>

definition apply_transaction ::
  "env \<Rightarrow> ustring \<Rightarrow> ustring \<Rightarrow> transaction \<Rightarrow> result option io" where
  "apply_transaction e language user_id t =
     bind (subscript (t_intent t)) (\<lambda>intent.
       if intent = u ''income'' \<and> truthy_num (t_amount t) then
         bind (add_income e user_id (the (t_amount t))
                 (Str (get_or (u ''Income'') (t_description t)))
                 (get_or (u ''General'') (t_category t)) (u ''text'') (Some language))
           (\<lambda>result. ret (Some result))
       else if intent = u ''expense'' \<and> truthy_num (t_amount t) then
         bind (add_expense e user_id (the (t_amount t))
                 (Str (get_or (u ''Expense'') (t_description t)))
                 (get_or (u ''General'') (t_category t)) (u ''text''))
           (\<lambda>result. ret (Some result))
       else if intent = u ''inventory'' \<and> truthy_seq (t_product_name t)
               \<and> truthy_num (t_quantity t) then
         bind (add_inventory_item e user_id (the (t_product_name t)) (the (t_quantity t))
                 (get_or (u ''pieces'') (t_unit t)) (get_or 0 (t_cost_per_unit t)))
           (\<lambda>result. ret (Some result))
       else ret None)"

fun apply_transactions ::
  "env \<Rightarrow> ustring \<Rightarrow> ustring \<Rightarrow> transaction list \<Rightarrow> result list \<Rightarrow> result list io" where
  "apply_transactions e language user_id [] business_results = ret business_results"
| "apply_transactions e language user_id (t # ts) business_results =
     bind (apply_transaction e language user_id t) (\<lambda>r.
       apply_transactions e language user_id ts
         (case r of None \<Rightarrow> business_results | Some result \<Rightarrow> business_results @ [result]))"

text \<open>Lines 518 to 555: the batch and the message chosen after it.\<close>

definition process_transactions ::
  "env \<Rightarrow> ustring \<Rightarrow> ustring \<Rightarrow> intent_result \<Rightarrow> (msg_text \<times> result list) io" where
  "process_transactions e language user_id intent_result =
     bind (apply_transactions e language user_id (the (ir_transactions intent_result)) [])
       (\<lambda>business_results.
          if business_results \<noteq> [] then
            ret (Str (get_or (u ''Transactions processed successfully!'')
                   (ir_response_message intent_result)), business_results)
          else
            ret (Str (get_or (u ''No valid transactions found.'')
                   (ir_response_message intent_result)), business_results))"

text \<open>Lines 558 to 583: the old format, one transaction in \<open>data\<close>.\<close>

definition empty_data :: data where
  "empty_data = \<lparr>d_amount = None, d_description = None, d_category = None, d_items = None\<rparr>"

definition legacy_income ::
  "env \<Rightarrow> ustring \<Rightarrow> ustring \<Rightarrow> intent_result \<Rightarrow> (msg_text \<times> result list) io" where
  "legacy_income e language user_id intent_result =
     (let data = get_or empty_data (ir_data intent_result) in
      if truthy_num (d_amount data) then
        bind (add_income e user_id (the (d_amount data))
                (Str (get_or (u ''Income'') (d_description data)))
                (get_or (u ''General'') (d_category data)) (u ''text'') (Some language))
          (\<lambda>result. bind (subscript (res_message result)) (\<lambda>m. ret (Str m, [result])))
      else ret (Str [], []))"

definition legacy_expense ::
  "env \<Rightarrow> ustring \<Rightarrow> intent_result \<Rightarrow> (msg_text \<times> result list) io" where
  "legacy_expense e user_id intent_result =
     (let data = get_or empty_data (ir_data intent_result) in
      if truthy_num (d_amount data) then
        bind (add_expense e user_id (the (d_amount data))
                (Str (get_or (u ''Expense'') (d_description data)))
                (get_or (u ''General'') (d_category data)) (u ''text''))
          (\<lambda>result. bind (subscript (res_message result)) (\<lambda>m. ret (Str m, [result])))
      else ret (Str [], []))"

section \<open>Query responder\<close>

text \<open>The keyword lists of lines 592 to 596, 639 to 643 and 655 to 659.\<close>

definition profit_loss_words :: "ustring list" where
  "profit_loss_words =
     [u ''profit'', u ''loss'',
      [2354, 2366, 2349], [2361, 2366, 2344, 2367], [2344, 2369, 2325, 2360, 2366, 2344],
      [2347, 2366, 2351, 2342, 2366],
      [2951, 2994, 3006, 2986, 2990, 3021], [2984, 2999, 3021, 2975, 2990, 3021],
      [2994, 3006, 2986, 2990, 3021], [2344, 2369, 2325, 2360, 2366, 2344, 3021],
      [3378, 3390, 3373, 3330], [3368, 3383, 3405, 3359, 3330], [3349, 3390, 3382, 3405],
      [3370, 3363, 3330]]"

definition income_words :: "ustring list" where
  "income_words =
     [u ''income'', u ''revenue'',
      [2310, 2351], [2325, 2350, 2366, 2312],
      [2997, 2992, 3009, 2990, 3006, 2985, 2990, 3021],
      [2997, 2992, 3009, 2997, 3006, 2991, 3021],
      [2970, 2990, 3021, 2986, 3006, 2980, 2985, 3016],
      [3381, 3376, 3393, 3374, 3390, 3368, 3330],
      [3384, 3374, 3405, 3370, 3390, 3366, 3405, 3375, 3330],
      [3349, 3374, 3405, 3370, 3368, 3391]]"

definition expense_words :: "ustring list" where
  "expense_words =
     [u ''expense'', u ''spending'',
      [2326, 2352, 2381, 2330], [2326, 2352, 2381, 2330, 2366],
      [2970, 3014, 2994, 2997, 3009], [2326, 2352, 2381, 2330, 2366], [2357, 2381, 2351, 2351],
      [3354, 3398, 3378, 3381, 3405], [2326, 2352, 2381, 2330, 2366], [3370, 3363, 3330]]"

text \<open>The shorter lists of the \<open>action == "query"\<close> branch, lines 683, 709 and 718.\<close>

definition query_profit_loss_words :: "ustring list" where
  "query_profit_loss_words =
     [u ''profit'', u ''loss'',
      [2354, 2366, 2349], [2361, 2366, 2344, 2367], [2344, 2369, 2325, 2360, 2366, 2344],
      [2347, 2366, 2351, 2342, 2366]]"

definition query_income_words :: "ustring list" where
  "query_income_words = [u ''income'', [2310, 2351], [2325, 2350, 2366, 2312], u ''revenue'']"

definition query_expense_words :: "ustring list" where
  "query_expense_words =
     [u ''expense'', [2326, 2352, 2381, 2330], [2326, 2352, 2381, 2330, 2366], u ''spending'']"

text \<open>\<open>"today" in query_message or "aaj" in query_message\<close>, the latter in Devanagari.\<close>

definition has_today :: "ustring \<Rightarrow> bool" where
  "has_today query_message =
     (contains query_message (u ''today'') \<or> contains query_message [2310, 2332])"

text \<open>The three template families, chosen by the sign of the net profit.\<close>

definition profit_loss_text :: "tlang \<Rightarrow> profit_loss \<Rightarrow> msg_text" where
  "profit_loss_text l pl =
     (if pl_net_profit pl > 0 then
        Profit_msg l (pl_total_income pl) (pl_total_expenses pl) (pl_net_profit pl)
          (pl_profit_margin_percentage pl)
      else if pl_net_profit pl < 0 then
        Loss_msg l (pl_total_income pl) (pl_total_expenses pl) (abs (pl_net_profit pl))
          (abs (pl_profit_margin_percentage pl))
      else Break_even_msg l (pl_total_income pl) (pl_total_expenses pl))"

definition profit_loss_answer :: "env \<Rightarrow> ustring \<Rightarrow> tlang \<Rightarrow> ustring \<Rightarrow> msg_text io" where
  "profit_loss_answer e user_id l language =
     bind (invoke (profit_loss_report e) (Get_profit_loss_summary user_id)) (\<lambda>profit_loss.
       if pl_success profit_loss then ret (profit_loss_text l profit_loss)
       else ret (Profit_trouble_msg (tlang2 language)))"

definition income_answer :: "env \<Rightarrow> ustring \<Rightarrow> ustring \<Rightarrow> msg_text io" where
  "income_answer e user_id language =
     bind (invoke (summary_report e) (Get_income_summary user_id)) (\<lambda>income_summary.
       if sum_success income_summary \<and> sum_total income_summary > 0 then
         ret (Income_total_msg (tlang2 language) (sum_total income_summary)
                (sum_count income_summary))
       else ret (No_income_msg (tlang2 language)))"

definition expense_answer :: "env \<Rightarrow> ustring \<Rightarrow> ustring \<Rightarrow> msg_text io" where
  "expense_answer e user_id language =
     bind (invoke (summary_report e) (Get_expense_summary user_id)) (\<lambda>expense_summary.
       if sum_success expense_summary \<and> sum_total expense_summary > 0 then
         ret (Expense_total_msg (tlang2 language) (sum_total expense_summary)
                (sum_count expense_summary))
       else ret (No_expense_msg (tlang2 language)))"

definition today_expense_answer :: "env \<Rightarrow> ustring \<Rightarrow> ustring \<Rightarrow> msg_text io" where
  "today_expense_answer e user_id language =
     bind (invoke (summary_report e) (Get_today_expenses user_id)) (\<lambda>today_expenses.
       if sum_success today_expenses \<and> sum_count today_expenses > 0 then
         ret (Today_expense_msg (tlang2 language) (sum_total today_expenses)
                (sum_count today_expenses))
       else ret (No_expense_today_msg (tlang2 language)))"

text \<open>Lines 671 to 728: the branch of \<open>action == "query"\<close>.\<close>

definition query_action ::
  "env \<Rightarrow> ustring \<Rightarrow> ustring \<Rightarrow> ustring \<Rightarrow> intent_result \<Rightarrow> msg_text io" where
  "query_action e message language user_id intent_result =
     (let query_message = lower message in
      if contains query_message (u ''expense'') \<and> has_today query_message then
        today_expense_answer e user_id language
      else if contains query_message (u ''income'') \<and> has_today query_message then
        ret (Str (get_or (u ''Income query functionality coming soon!'')
               (ir_response_message intent_result)))
      else if contains_any query_message query_profit_loss_words then
        profit_loss_answer e user_id (tlang2 language) language
      else if contains_any query_message query_income_words \<and> \<not> has_today query_message then
        income_answer e user_id language
      else if contains_any query_message query_expense_words \<and> \<not> has_today query_message then
        expense_answer e user_id language
      else
        ret (Str (get_or (u ''I'm here to help with your business needs!'')
               (ir_response_message intent_result))))"

text \<open>Lines 586 to 731: the \<open>else\<close> branch that handles queries.\<close>

definition handle_queries ::
  "env \<Rightarrow> ustring \<Rightarrow> ustring \<Rightarrow> ustring \<Rightarrow> intent_result \<Rightarrow> msg_text io" where
  "handle_queries e message language user_id intent_result =
     (let query_message = lower message in
      if contains_any query_message profit_loss_words then
        profit_loss_answer e user_id (tlang4 language) language
      else if contains_any query_message income_words \<and> \<not> has_today query_message then
        income_answer e user_id language
      else if contains_any query_message expense_words \<and> \<not> has_today query_message then
        expense_answer e user_id language
      else if ir_action intent_result = Some (u ''query'') then
        query_action e message language user_id intent_result
      else
        ret (Str (get_or (u ''I'm here to help with your business needs!'')
               (ir_response_message intent_result))))"

section \<open>The text-message pipeline\<close>

text \<open>Lines 462 to 485: conversational and off-topic results.\<close>

definition conversational ::
  "env \<Rightarrow> ustring \<Rightarrow> ustring \<Rightarrow> intent_result \<Rightarrow> response io" where
  "conversational e message user_id intent_result =
     (let response_message =
            Str (get_or (u ''I'm here to help with your business!'')
                   (ir_response_message intent_result)) in
      bind (save_chat_history e user_id (Str message) response_message (u ''text'')
              (get_or (u ''conversational'') (ir_intent intent_result))) (\<lambda>_.
      ret ((ok_response response_message (ir_intent intent_result) [])
        \<lparr>resp_confidence := Some (get_or (8 / 10) (ir_confidence intent_result)),
         resp_is_business_related :=
           Some (get_or True (ir_is_business_related intent_result))\<rparr>)))"

text \<open>Lines 488 to 511: item clarification.\<close>

definition item_clarification ::
  "env \<Rightarrow> ustring \<Rightarrow> ustring \<Rightarrow> intent_result \<Rightarrow> response io" where
  "item_clarification e message user_id intent_result =
     (let items = get_or [] (d_items (get_or empty_data (ir_data intent_result)));
          response_message =
            Str (get_or (u ''Please review and confirm the categorization:'')
                   (ir_response_message intent_result)) in
      bind (save_chat_history e user_id (Str message) response_message (u ''text'')
              (u ''item_clarification'')) (\<lambda>_.
      ret ((ok_response response_message (Some (u ''item_clarification'')) [])
        \<lparr>resp_confidence := Some (get_or (8 / 10) (ir_confidence intent_result)),
         resp_needs_clarification := Some True,
         resp_clarification_items := Some items\<rparr>)))"

text \<open>Lines 513 to 731: the transactions, the old format, or a query.\<close>

definition business ::
  "env \<Rightarrow> ustring \<Rightarrow> ustring \<Rightarrow> ustring \<Rightarrow> intent_result \<Rightarrow> (msg_text \<times> result list) io" where
  "business e message language user_id intent_result =
     (if truthy_seq (ir_transactions intent_result) then
        process_transactions e language user_id intent_result
      else if ir_intent intent_result = Some (u ''income'')
              \<and> ir_action intent_result = Some (u ''add'') then
        legacy_income e language user_id intent_result
      else if ir_intent intent_result = Some (u ''expense'')
              \<and> ir_action intent_result = Some (u ''add'') then
        legacy_expense e user_id intent_result
      else
        bind (handle_queries e message language user_id intent_result)
          (\<lambda>response_message. ret (response_message, [])))"

text \<open>Lines 733 to 749: the history record and the success response.\<close>

definition finish ::
  "env \<Rightarrow> ustring \<Rightarrow> ustring \<Rightarrow> intent_result \<Rightarrow> msg_text \<times> result list \<Rightarrow> response io" where
  "finish e message user_id intent_result out =
     (let intent = get_or (get_or (u ''general'') (ir_intent intent_result))
                     (ir_primary_intent intent_result) in
      bind (save_chat_history e user_id (Str message) (fst out) (u ''text'') intent) (\<lambda>_.
      ret ((ok_response (fst out) (Some intent) (snd out))
        \<lparr>resp_confidence := Some (get_or 0 (ir_confidence intent_result)),
         resp_transactions_processed := Some (length (snd out))\<rparr>)))"

text \<open>Lines 461 to 749: what is done with the classifier's result.\<close>

definition dispatch ::
  "env \<Rightarrow> ustring \<Rightarrow> ustring \<Rightarrow> ustring \<Rightarrow> intent_result \<Rightarrow> response io" where
  "dispatch e message language user_id intent_result =
     (if ir_intent intent_result = Some (u ''conversational'')
         \<or> ir_intent intent_result = Some (u ''off_topic'') then
        conversational e message user_id intent_result
      else if ir_intent intent_result = Some (u ''item_clarification'') then
        item_clarification e message user_id intent_result
      else
        bind (business e message language user_id intent_result)
          (finish e message user_id intent_result))"

text \<open>Lines 328 to 749: the clear commands, then the classifier and its result.\<close>

definition after_fast_path ::
  "env \<Rightarrow> ustring \<Rightarrow> ustring \<Rightarrow> ustring \<Rightarrow> ustring \<Rightarrow> response io" where
  "after_fast_path e message language chat_mode user_id =
     bind (clear_commands e message language user_id) (\<lambda>cleared.
       case cleared of
         Some r \<Rightarrow> ret r
       | None \<Rightarrow>
           bind (classify e message language chat_mode)
             (dispatch e message language user_id))"

text \<open>Lines 310 to 749: the body of the outer \<open>try\<close>.\<close>

definition pipeline ::
  "env \<Rightarrow> ustring \<Rightarrow> ustring \<Rightarrow> ustring \<Rightarrow> ustring option \<Rightarrow> response io" where
  "pipeline e message language chat_mode authorization =
     bind (get_user_id_from_auth e authorization) (\<lambda>user_id.
     bind (if chat_mode = u ''business''
           then ultra_fast_transaction_detection e message language user_id
           else ret None) (\<lambda>fast_result.
       case fast_result of
         Some r \<Rightarrow> ret r
       | None \<Rightarrow> after_fast_path e message language chat_mode user_id))"

text \<open>Lines 751 to 757: the response of \<open>except Exception\<close>.\<close>

definition failure_response :: "ustring \<Rightarrow> exn \<Rightarrow> response" where
  "failure_response language ex =
     \<lparr>resp_status = 500, resp_success = False, resp_message = Apology_msg (tlang2 language),
      resp_intent = None, resp_confidence = None, resp_business_results = None,
      resp_transactions_processed = None, resp_processed_count = None,
      resp_fast_detection = None, resp_is_business_related = None,
      resp_needs_clarification = None, resp_clarification_items = None,
      resp_error = Some ex\<rparr>"

definition process_text_message ::
  "env \<Rightarrow> ustring \<Rightarrow> ustring \<Rightarrow> ustring \<Rightarrow> ustring option \<Rightarrow> call list
     \<Rightarrow> response \<times> call list" where
  "process_text_message e message language chat_mode authorization tr =
     (case pipeline e message language chat_mode authorization tr of
        (Inr r, tr') \<Rightarrow> (r, tr')
      | (Inl ex, tr') \<Rightarrow> (failure_response language ex, tr'))"

section \<open>Confirmed receipt items\<close>

text \<open>An item of the request's \<open>items\<close> list; its numbers are JSON numbers.\<close>

record item =
  i_category :: "ustring option"
  i_name :: "ustring option"
  i_quantity :: "rat option"
  i_amount :: "rat option"
  i_cost_per_unit :: "rat option"
  i_unit :: "ustring option"

text \<open>One iteration of the loop of lines 1464 to 1502.\<close>

definition confirm_item :: "env \<Rightarrow> ustring \<Rightarrow> item \<Rightarrow> result option io" where
  "confirm_item e user_id it =
     (let category = get_or (u ''expense'') (i_category it);
          name = get_or (u ''Unknown Item'') (i_name it);
          quantity = get_or 1 (i_quantity it);
          amount = get_or 0 (i_amount it);
          cost_per_unit = get_or 0 (i_cost_per_unit it);
          unit = get_or (u ''pieces'') (i_unit it);
          description = (if quantity > 1 then Item_descr quantity name else Str name) in
      if category = u ''income'' then
        bind (add_income e user_id amount description (u ''sales'') (u ''user_confirmed'') None)
          (\<lambda>result. ret (Some result))
      else if category = u ''expense'' then
        bind (add_expense e user_id amount description (u ''general'') (u ''user_confirmed''))
          (\<lambda>result. ret (Some result))
      else if category = u ''inventory'' then
        bind (add_inventory_item e user_id name quantity unit cost_per_unit)
          (\<lambda>result. ret (Some result))
      else ret None)"

fun confirm_loop :: "env \<Rightarrow> ustring \<Rightarrow> item list \<Rightarrow> result list \<Rightarrow> result list io" where
  "confirm_loop e user_id [] business_results = ret business_results"
| "confirm_loop e user_id (it # its) business_results =
     bind (confirm_item e user_id it) (\<lambda>r.
       confirm_loop e user_id its
         (case r of None \<Rightarrow> business_results | Some result \<Rightarrow> business_results @ [result]))"

definition confirm_items ::
  "env \<Rightarrow> item list \<Rightarrow> ustring option \<Rightarrow> call list \<Rightarrow> response \<times> call list" where
  "confirm_items e confirmed_items authorization tr =
     (case bind (get_user_id_from_auth e authorization) (\<lambda>user_id.
             bind (confirm_loop e user_id confirmed_items []) (\<lambda>business_results.
               let success_count = length (filter res_success business_results);
                   summary_message = Items_processed_msg success_count in
               bind (save_chat_history e user_id
                       (Confirmed_items_msg (length confirmed_items)) summary_message
                       (u ''confirmation'') (u ''item_confirmation'')) (\<lambda>_.
               ret ((ok_response summary_message None business_results)
                 \<lparr>resp_processed_count := Some success_count\<rparr>)))) tr of
        (Inr r, tr') \<Rightarrow> (r, tr')
      | (Inl ex, tr') \<Rightarrow>
          ((failure_response [] ex)\<lparr>resp_message := Items_error_msg ex, resp_error := None\<rparr>,
           tr'))"

section \<open>Notions used in the statements\<close>

text \<open>What \<open>str.lower\<close> does to an ASCII character.\<close>

definition ascii_lower :: "nat \<Rightarrow> nat" where
  "ascii_lower c = (if 65 \<le> c \<and> c \<le> 90 then c + 32 else c)"

text \<open>The message contains one of the phrases of the four clear commands.\<close>

definition is_clear_command :: "ustring \<Rightarrow> bool" where
  "is_clear_command message =
     (contains_any (lower message) clear_expense_phrases
      \<or> contains_any (lower message) clear_income_phrases
      \<or> contains_any (lower message) clear_chat_phrases
      \<or> contains_any (lower message) clear_all_phrases)"

text \<open>
  Modelled from the spec: the ledger's profit and loss summary is computed by
  \<open>get_profit_loss_summary\<close> of \<open>supabase_business_logic\<close>, which is not among the sources.
  The spec's aggregate is used for it where an example needs figures: net profit is
  income minus expenses, and the margin is net profit over income, as a percentage, and 0
  when the income is 0.
\<close>

definition ledger_aggregate :: "rat \<Rightarrow> rat \<Rightarrow> profit_loss" where
  "ledger_aggregate income expenses =
     \<lparr>pl_success = True, pl_total_income = income, pl_total_expenses = expenses,
      pl_net_profit = income - expenses,
      pl_profit_margin_percentage =
        (if income = 0 then 0 else (income - expenses) / income * 100)\<rparr>"

text \<open>
  Collaborators for the examples: no token resolves, every ledger call succeeds, the
  summaries are those of a ledger with income 1000 and expenses 400, and the classifier's
  outcome and the history sink's answer are as given.
\<close>

definition ok_result :: result where
  "ok_result = \<lparr>res_success = True, res_message = Some (u ''recorded'')\<rparr>"

definition sample_env :: "ai_outcome \<Rightarrow> exn + unit \<Rightarrow> env" where
  "sample_env outcome saved =
     \<lparr>token_service = (\<lambda>tr c. Inr None),
      ledger = (\<lambda>tr c. Inr ok_result),
      history_sink = (\<lambda>tr c. saved),
      profit_loss_report = (\<lambda>tr c. Inr (ledger_aggregate 1000 400)),
      summary_report = (\<lambda>tr c. Inr \<lparr>sum_success = True, sum_total = 400, sum_count = 2\<rparr>),
      classifier = (\<lambda>tr c. outcome)\<rparr>"

text \<open>A classifier result for the examples: a query, with no message of its own.\<close>

definition query_result :: intent_result where
  "query_result =
     \<lparr>ir_intent = Some (u ''query''), ir_response_message = None, ir_confidence = None,
      ir_is_business_related = None, ir_fallback_used = None,
      ir_action = Some (u ''query''), ir_primary_intent = None, ir_transactions = None,
      ir_data = None\<rparr>"


text \<open>
  The items of a batch that one of the three branches of the loop takes, and the ledger
  call that the branch makes for such an item.
\<close>

definition applicable :: "transaction \<Rightarrow> bool" where
  "applicable t =
     ((t_intent t = Some (u ''income'') \<and> truthy_num (t_amount t))
      \<or> (t_intent t = Some (u ''expense'') \<and> truthy_num (t_amount t))
      \<or> (t_intent t = Some (u ''inventory'') \<and> truthy_seq (t_product_name t)
           \<and> truthy_num (t_quantity t)))"

definition ledger_call :: "ustring \<Rightarrow> ustring \<Rightarrow> transaction \<Rightarrow> call" where
  "ledger_call language user_id t =
     (if t_intent t = Some (u ''income'') then
        Add_income user_id (the (t_amount t)) (Str (get_or (u ''Income'') (t_description t)))
          (get_or (u ''General'') (t_category t)) (u ''text'') (Some language)
      else if t_intent t = Some (u ''expense'') then
        Add_expense user_id (the (t_amount t)) (Str (get_or (u ''Expense'') (t_description t)))
          (get_or (u ''General'') (t_category t)) (u ''text'')
      else
        Add_inventory_item user_id (the (t_product_name t)) (the (t_quantity t))
          (get_or (u ''pieces'') (t_unit t)) (get_or 0 (t_cost_per_unit t)))"



text \<open>A computation only adds calls to those made before it.\<close>

definition grows :: "'a io \<Rightarrow> bool" where
  "grows m = (\<forall>tr. \<exists>rest. snd (m tr) = tr @ rest)"

text \<open>
  Inputs for the examples: a batch of three items whose second item has no amount, a
  classifier result that carries a batch, a batch with a negative amount, and a confirmed
  receipt item with amount 0.
\<close>

definition blank_transaction :: transaction where
  "blank_transaction =
     \<lparr>t_intent = None, t_amount = None, t_description = None, t_category = None,
      t_product_name = None, t_quantity = None, t_unit = None, t_cost_per_unit = None\<rparr>"


definition batch_result :: "transaction list \<Rightarrow> intent_result" where
  "batch_result ts =
     \<lparr>ir_intent = Some (u ''multiple''), ir_response_message = None, ir_confidence = None,
      ir_is_business_related = None, ir_fallback_used = None, ir_action = None,
      ir_primary_intent = None, ir_transactions = Some ts, ir_data = None\<rparr>"

definition negative_batch :: "transaction list" where
  "negative_batch =
     [blank_transaction\<lparr>t_intent := Some (u ''expense''), t_amount := Some (- 5)\<rparr>]"

definition zero_item :: item where
  "zero_item =
     \<lparr>i_category = Some (u ''income''), i_name = Some (u ''rice''), i_quantity = None,
      i_amount = Some 0, i_cost_per_unit = None, i_unit = None\<rparr>"

section \<open>Laws of the computations\<close>

lemma startswith_prefix: "startswith s p \<longleftrightarrow> (\<exists>t. s = p @ t)"
  by (induction s p rule: startswith.induct) auto

lemma lower_char_ascii: "c < 128 \<Longrightarrow> lower_char c = [ascii_lower c]"
  by (simp add: lower_char_def lower_runs_def in_run_def ascii_lower_def)

lemma lower_char_indic: "1367 \<le> c \<Longrightarrow> c < 4256 \<Longrightarrow> lower_char c = [c]"
  by (simp add: lower_char_def lower_runs_def in_run_def)

lemma lower_char_kelvin: "lower_char 8490 = [107]"
  by (simp add: lower_char_def lower_runs_def in_run_def)

lemma lower_char_dotted: "lower_char 304 = [105, 775]"
  by (simp add: lower_char_def)

lemma lower_from_ascii:
  "list_all (\<lambda>c. c < 128) s \<Longrightarrow> lower_from before s = map ascii_lower s"
  by (induction s arbitrary: before) (simp_all add: lower_char_ascii)

lemma lower_ascii: "list_all (\<lambda>c. c < 128) s \<Longrightarrow> lower s = map ascii_lower s"
  by (simp add: lower_def lower_from_ascii)



lemma devanagari_digit: "2406 \<le> c \<Longrightarrow> c < 2416 \<Longrightarrow> digit_value c = Some (c - 2406)"
  by (simp add: digit_value_def digit_zeros_def)

lemma no_digit_letters:
  "2928 \<le> c \<Longrightarrow> c < 3046 \<Longrightarrow> \<not> is_digit c"
  "2304 \<le> c \<Longrightarrow> c < 2406 \<Longrightarrow> \<not> is_digit c"
  "c = 8377 \<Longrightarrow> \<not> is_digit c"
  by (simp_all add: is_digit_def digit_value_def digit_zeros_def)

lemma contains_substring: "contains s kw \<longleftrightarrow> (\<exists>p t. s = p @ kw @ t)"
proof (induction s)
  case Nil
  then show ?case by auto
next
  case (Cons c cs)
  show ?case
  proof
    assume "contains (c # cs) kw"
    then consider "startswith (c # cs) kw" | "contains cs kw" by auto
    then show "\<exists>p t. c # cs = p @ kw @ t"
    proof cases
      case 1
      then obtain t where "c # cs = kw @ t" using startswith_prefix by blast
      then have "c # cs = [] @ kw @ t" by simp
      then show ?thesis by blast
    next
      case 2
      then obtain p t where "cs = p @ kw @ t" using Cons.IH by blast
      then have "c # cs = (c # p) @ kw @ t" by simp
      then show ?thesis by blast
    qed
  next
    assume "\<exists>p t. c # cs = p @ kw @ t"
    then obtain p t where pt: "c # cs = p @ kw @ t" by blast
    show "contains (c # cs) kw"
    proof (cases p)
      case Nil
      then have "startswith (c # cs) kw" using pt startswith_prefix by auto
      then show ?thesis by simp
    next
      case (Cons x xs)
      then have "cs = xs @ kw @ t" using pt by simp
      then have "contains cs kw" using Cons.IH by blast
      then show ?thesis by simp
    qed
  qed
qed

lemma bind_ret: "bind (ret x) f tr = f x tr"
  by (simp add: bind_def ret_def)

lemma bind_raise: "bind (raise ex) f tr = (Inl ex, tr)"
  by (simp add: bind_def raise_def)

lemma bind_invoke:
  "bind (invoke answer c) f tr =
     (case answer tr c of Inl ex \<Rightarrow> (Inl ex, tr @ [c]) | Inr x \<Rightarrow> f x (tr @ [c]))"
  by (simp add: bind_def invoke_def split: sum.split)


lemma bind_subscript:
  "bind (subscript v) f tr = (case v of None \<Rightarrow> (Inl KeyError, tr) | Some x \<Rightarrow> f x tr)"
  by (simp add: subscript_def bind_ret bind_raise split: option.split)

lemma clear_commands_none:
  "\<not> is_clear_command message \<Longrightarrow> clear_commands e message language user_id = ret None"
  by (simp add: is_clear_command_def clear_commands_def)

lemma classify_eq:
  "classify e message language chat_mode tr =
     (case classifier e tr (Parse_intent message language chat_mode join_timeout) of
        Still_running \<Rightarrow>
          (Inr (get_smart_fallback_response message language),
           tr @ [Parse_intent message language chat_mode join_timeout])
      | Raised ex \<Rightarrow>
          (Inr (get_smart_fallback_response message language),
           tr @ [Parse_intent message language chat_mode join_timeout])
      | Returned r \<Rightarrow> (Inr r, tr @ [Parse_intent message language chat_mode join_timeout]))"
  by (simp add: classify_def try_catch_def bind_def run_thread_def ret_def raise_def
      split: ai_outcome.split)

lemma classify_never_raises: "fst (classify e message language chat_mode tr) \<noteq> Inl ex"
  by (simp add: classify_eq split: ai_outcome.split)

lemma fallback_dispatch:
  "dispatch e message language user_id (get_smart_fallback_response message language) =
   conversational e message user_id (get_smart_fallback_response message language)"
  by (simp add: dispatch_def get_smart_fallback_response_def)












lemma bind_ret_fun: "bind (ret x) f = f x"
  by (rule ext) (simp add: bind_ret)


section \<open>The claims\<close>


text \<open>
  C10.  When the Authorization header is absent, does not start with \<open>Bearer\<close> and a
  space, or carries a token for which the token service returns no user id (nothing, or
  the empty string), the helper raises nothing and returns the fixed user id
  \<open>default_user\<close>; it has made at most the one call to the token service, and the text
  pipeline goes on for that user.
\<close>

theorem default_user_fallback:
  assumes "authorization = None
     \<or> (\<exists>a. authorization = Some a \<and> \<not> startswith a (u ''Bearer ''))
     \<or> (\<exists>a. authorization = Some a \<and> startswith a (u ''Bearer '')
          \<and> (token_service e tr (Get_user_id_from_token (second_field a)) = Inr None
             \<or> token_service e tr (Get_user_id_from_token (second_field a)) = Inr (Some [])))"
  shows "\<exists>tr'. get_user_id_from_auth e authorization tr = (Inr default_user, tr')
     \<and> (tr' = tr \<or> (\<exists>token. tr' = tr @ [Get_user_id_from_token token]))
     \<and> pipeline e message language chat_mode authorization tr =
         bind (if chat_mode = u ''business''
               then ultra_fast_transaction_detection e message language default_user
               else ret None)
           (\<lambda>fast_result. case fast_result of
              Some r \<Rightarrow> ret r
            | None \<Rightarrow> after_fast_path e message language chat_mode default_user) tr'"
proof -
  have "\<exists>tr'. get_user_id_from_auth e authorization tr = (Inr default_user, tr')
      \<and> (tr' = tr \<or> (\<exists>token. tr' = tr @ [Get_user_id_from_token token]))"
    using assms
    by (auto simp add: get_user_id_from_auth_def ret_def bind_invoke split: option.splits)
  then obtain tr' where auth: "get_user_id_from_auth e authorization tr = (Inr default_user, tr')"
    and tr': "tr' = tr \<or> (\<exists>token. tr' = tr @ [Get_user_id_from_token token])"
    by blast
  have "pipeline e message language chat_mode authorization tr =
      bind (if chat_mode = u ''business''
            then ultra_fast_transaction_detection e message language default_user
            else ret None)
        (\<lambda>fast_result. case fast_result of
           Some r \<Rightarrow> ret r
         | None \<Rightarrow> after_fast_path e message language chat_mode default_user) tr'"
    unfolding pipeline_def using auth by (simp add: bind_def)
  with auth tr' show ?thesis by blast
qed

theorem default_user_fallback_witness:
  "startswith (u ''Bearer stale'') (u ''Bearer '')
   \<and> token_service (sample_env Still_running (Inr ()))
        [] (Get_user_id_from_token (second_field (u ''Bearer stale''))) = Inr None
   \<and> get_user_id_from_auth (sample_env Still_running (Inr ())) (Some (u ''Bearer stale'')) [] =
        (Inr default_user, [Get_user_id_from_token (u ''stale'')])"
  using default_user_fallback [of "Some (u ''Bearer stale'')" "sample_env Still_running (Inr ())" "[]"]
  by (simp add: sample_env_def u_def second_field_def get_user_id_from_auth_def bind_invoke
      ret_def)

text \<open>
  C4.  No exception of the classifier call leaves the gateway.  When the thread is still
  running after \<open>thread.join(timeout=15)\<close>, or has stored an error, the gateway's result is
  the fallback responder's, with confidence 0.8 and \<open>fallback_used\<close> true; and when the
  message is no clear command and the history sink returns, the caller receives the
  success response that carries the fallback text and confidence 0.8.  The wait itself is
  the 15 seconds given to \<open>join\<close>.
\<close>

theorem classifier_gateway_fallback:
  "(\<forall>ex. fst (classify e message language chat_mode tr) \<noteq> Inl ex)
   \<and> ((classifier e tr (Parse_intent message language chat_mode join_timeout) = Still_running
        \<or> (\<exists>ex. classifier e tr (Parse_intent message language chat_mode join_timeout) = Raised ex))
       \<longrightarrow>
       join_timeout = 15
       \<and> classify e message language chat_mode tr =
           (Inr (get_smart_fallback_response message language),
            tr @ [Parse_intent message language chat_mode 15])
       \<and> ir_confidence (get_smart_fallback_response message language) = Some (8 / 10)
       \<and> ir_fallback_used (get_smart_fallback_response message language) = Some True
       \<and> (\<not> is_clear_command message
            \<and> history_sink e (tr @ [Parse_intent message language chat_mode 15])
                 (Save_chat_history user_id (Str message)
                    (Str (canned_text (categorize message) language)) (u ''text'')
                    (u ''conversational'')) = Inr ()
          \<longrightarrow> after_fast_path e message language chat_mode user_id tr =
               (Inr ((ok_response (Str (canned_text (categorize message) language))
                        (Some (u ''conversational'')) [])
                      \<lparr>resp_confidence := Some (8 / 10),
                       resp_is_business_related := Some True\<rparr>),
                tr @ [Parse_intent message language chat_mode 15,
                      Save_chat_history user_id (Str message)
                        (Str (canned_text (categorize message) language)) (u ''text'')
                        (u ''conversational'')])))"
proof -
  let ?c = "Parse_intent message language chat_mode join_timeout"
  let ?fb = "get_smart_fallback_response message language"
  have cl: "classify e message language chat_mode tr = (Inr ?fb, tr @ [?c])"
    if "classifier e tr ?c = Still_running \<or> (\<exists>ex. classifier e tr ?c = Raised ex)"
    using that by (auto simp add: classify_eq)
  have conv: "conversational e message user_id ?fb (tr @ [?c]) =
      (Inr ((ok_response (Str (canned_text (categorize message) language))
               (Some (u ''conversational'')) [])
             \<lparr>resp_confidence := Some (8 / 10), resp_is_business_related := Some True\<rparr>),
       tr @ [?c, Save_chat_history user_id (Str message)
                   (Str (canned_text (categorize message) language)) (u ''text'')
                   (u ''conversational'')])"
    if "history_sink e (tr @ [?c])
          (Save_chat_history user_id (Str message)
             (Str (canned_text (categorize message) language)) (u ''text'')
             (u ''conversational'')) = Inr ()"
    using that
    by (simp add: conversational_def get_smart_fallback_response_def save_chat_history_def
        bind_invoke get_or_def ret_def Let_def)
  have aft: "after_fast_path e message language chat_mode user_id tr =
      dispatch e message language user_id ?fb (tr @ [?c])"
    if "\<not> is_clear_command message"
      and "classifier e tr ?c = Still_running \<or> (\<exists>ex. classifier e tr ?c = Raised ex)"
  proof -
    have "after_fast_path e message language chat_mode user_id tr =
        bind (classify e message language chat_mode) (dispatch e message language user_id) tr"
      using that(1) by (simp add: after_fast_path_def clear_commands_none bind_ret)
    also have "\<dots> = dispatch e message language user_id ?fb (tr @ [?c])"
      using cl [OF that(2)] by (simp add: bind_def)
    finally show ?thesis .
  qed
  have jt: "join_timeout = 15"
    by (simp add: join_timeout_def)
  have fields: "ir_confidence ?fb = Some (8 / 10)" "ir_fallback_used ?fb = Some True"
    by (simp_all add: get_smart_fallback_response_def)
  have never: "\<forall>ex. fst (classify e message language chat_mode tr) \<noteq> Inl ex"
    using classify_never_raises by blast
  show ?thesis
    using never cl conv aft fields
    unfolding fallback_dispatch jt
    by (intro conjI impI) (simp_all only: simp_thms)
qed

lemma hello_no_clear: "\<not> is_clear_command (u ''hello'')"
  by (simp add: is_clear_command_def contains_any_def lower_ascii ascii_lower_def u_def
      clear_expense_phrases_def clear_income_phrases_def clear_chat_phrases_def
      clear_all_phrases_def)

lemma hello_greeting: "categorize (u ''hello'') = Greeting"
  by (simp add: categorize_def contains_any_def lower_ascii ascii_lower_def strip_def
      is_space_def u_def greeting_words_def)

theorem classifier_gateway_fallback_witness:
  "classifier (sample_env Still_running (Inr ())) []
     (Parse_intent (u ''hello'') (u ''en'') (u ''general'') join_timeout) = Still_running
   \<and> \<not> is_clear_command (u ''hello'')
   \<and> after_fast_path (sample_env Still_running (Inr ())) (u ''hello'') (u ''en'')
       (u ''general'') default_user [] =
       (Inr ((ok_response (Str greeting_en) (Some (u ''conversational'')) [])
              \<lparr>resp_confidence := Some (8 / 10), resp_is_business_related := Some True\<rparr>),
        [Parse_intent (u ''hello'') (u ''en'') (u ''general'') 15,
         Save_chat_history default_user (Str (u ''hello'')) (Str greeting_en) (u ''text'')
           (u ''conversational'')])"
  using classifier_gateway_fallback [of "sample_env Still_running (Inr ())" "u ''hello''"
      "u ''en''" "u ''general''" "[]" default_user]
    hello_no_clear hello_greeting
  by (simp add: sample_env_def canned_text_def greeting_text_def)





lemma query_words_subset:
  "contains_any q query_profit_loss_words \<Longrightarrow> contains_any q profit_loss_words"
  by (auto simp add: contains_any_def query_profit_loss_words_def profit_loss_words_def)

text \<open>
  C5.  When the message contains a profit or loss keyword, whatever else it contains and
  whatever intent and action the classifier gave, the query responder asks the ledger for
  the profit and loss summary and for nothing else, and, when the summary succeeds,
  answers with the profit, loss or break-even template according to the sign of the net
  profit, carrying the summary's income, expenses, net profit and margin.  For the message
  \<open>what is my profit\<close> and a ledger with income 1000 and expenses 400 the answer is the
  profit template with net profit 600 and margin 60.
\<close>

theorem profit_loss_priority:
  assumes "contains_any (lower message) profit_loss_words"
    and "profit_loss_report e tr (Get_profit_loss_summary user_id) = Inr pl"
    and "pl_success pl"
  shows "handle_queries e message language user_id intent_result tr =
           (Inr (profit_loss_text (tlang4 language) pl), tr @ [Get_profit_loss_summary user_id])
     \<and> (pl_net_profit pl > 0 \<longrightarrow>
          profit_loss_text (tlang4 language) pl =
            Profit_msg (tlang4 language) (pl_total_income pl) (pl_total_expenses pl)
              (pl_net_profit pl) (pl_profit_margin_percentage pl))
     \<and> (pl_net_profit pl < 0 \<longrightarrow>
          profit_loss_text (tlang4 language) pl =
            Loss_msg (tlang4 language) (pl_total_income pl) (pl_total_expenses pl)
              (abs (pl_net_profit pl)) (abs (pl_profit_margin_percentage pl)))
     \<and> (pl_net_profit pl = 0 \<longrightarrow>
          profit_loss_text (tlang4 language) pl =
            Break_even_msg (tlang4 language) (pl_total_income pl) (pl_total_expenses pl))"
  using assms
  by (simp add: handle_queries_def profit_loss_answer_def bind_invoke ret_def
      profit_loss_text_def Let_def)

lemma what_is_my_profit:
  "contains_any (lower (u ''what is my profit'')) profit_loss_words"
  by (simp add: contains_any_def lower_ascii ascii_lower_def u_def profit_loss_words_def)

theorem profit_loss_priority_witness:
  "contains_any (lower (u ''what is my profit'')) profit_loss_words
   \<and> handle_queries (sample_env Still_running (Inr ())) (u ''what is my profit'') (u ''en'')
       default_user
       \<lparr>ir_intent = Some (u ''expense''), ir_response_message = None, ir_confidence = None,
        ir_is_business_related = None, ir_fallback_used = None,
        ir_action = Some (u ''query''), ir_primary_intent = None, ir_transactions = None,
        ir_data = None\<rparr> [] =
       (Inr (Profit_msg Lang_en 1000 400 600 60), [Get_profit_loss_summary default_user])"
  using profit_loss_priority [where e = "sample_env Still_running (Inr ())"
      and message = "u ''what is my profit''" and language = "u ''en''"
      and user_id = default_user and tr = "[]" and pl = "ledger_aggregate 1000 400"
      and intent_result = "\<lparr>ir_intent = Some (u ''expense''), ir_response_message = None,
        ir_confidence = None, ir_is_business_related = None, ir_fallback_used = None,
        ir_action = Some (u ''query''), ir_primary_intent = None, ir_transactions = None,
        ir_data = None\<rparr>"]
    what_is_my_profit
  by (simp add: sample_env_def ledger_aggregate_def tlang4_def u_def)

text \<open>
  C6 (amended).  When the message contains \<open>today\<close> or its Hindi word and no profit or
  loss keyword, the all-time income and expense summaries are not read.  The today-only
  aggregate is read and answered only for expenses: when the classifier's action is
  \<open>query\<close> and the message contains the English word \<open>expense\<close>.  An income question with
  the qualifier, under the action \<open>query\<close>, gets the classifier's message or the text
  that the function is coming soon; every other such message gets the classifier's
  message or the generic help text; neither reads the ledger.
\<close>

theorem today_qualifier_only_expense_query:
  assumes "has_today (lower message)"
    and "\<not> contains_any (lower message) profit_loss_words"
  shows "handle_queries e message language user_id intent_result tr =
     (if ir_action intent_result = Some (u ''query'') \<and> contains (lower message) (u ''expense'')
      then today_expense_answer e user_id language tr
      else if ir_action intent_result = Some (u ''query'')
              \<and> contains (lower message) (u ''income'')
      then (Inr (Str (get_or (u ''Income query functionality coming soon!'')
                   (ir_response_message intent_result))), tr)
      else (Inr (Str (get_or (u ''I'm here to help with your business needs!'')
                   (ir_response_message intent_result))), tr))
     \<and> snd (today_expense_answer e user_id language tr) = tr @ [Get_today_expenses user_id]"
proof -
  have np: "\<not> contains_any (lower message) query_profit_loss_words"
    using assms(2) query_words_subset by blast
  have a: "snd (today_expense_answer e user_id language tr) = tr @ [Get_today_expenses user_id]"
    by (simp add: today_expense_answer_def bind_invoke ret_def split: sum.split)
  show ?thesis
    using assms np a
    by (simp add: handle_queries_def query_action_def Let_def ret_def)
qed

lemma expense_today_facts:
  "has_today (lower (u ''expense today''))"
  "\<not> contains_any (lower (u ''expense today'')) profit_loss_words"
  "contains (lower (u ''expense today'')) (u ''expense'')"
  by (simp_all add: has_today_def contains_any_def lower_ascii ascii_lower_def u_def
      profit_loss_words_def)

theorem today_qualifier_only_expense_query_witness:
  "has_today (lower (u ''expense today''))
   \<and> \<not> contains_any (lower (u ''expense today'')) profit_loss_words
   \<and> handle_queries (sample_env Still_running (Inr ())) (u ''expense today'') (u ''en'')
       default_user query_result [] =
       (Inr (Today_expense_msg Lang_en 400 2), [Get_today_expenses default_user])"
  using today_qualifier_only_expense_query [where e = "sample_env Still_running (Inr ())"
      and message = "u ''expense today''" and language = "u ''en''"
      and user_id = default_user and tr = "[]" and intent_result = query_result]
    expense_today_facts
  by (simp add: sample_env_def query_result_def today_expense_answer_def bind_invoke ret_def
      tlang2_def u_def)

text \<open>
  C6 as stated fails: \<open>income today\<close> under the action \<open>query\<close> is answered by a fixed
  text without any read of the ledger, and \<open>expense today\<close> without the action \<open>query\<close>
  likewise.
\<close>

theorem income_today_counterexample:
  "handle_queries (sample_env Still_running (Inr ())) (u ''income today'') (u ''en'')
     default_user query_result [] =
     (Inr (Str (u ''Income query functionality coming soon!'')), [])
   \<and> handle_queries (sample_env Still_running (Inr ())) (u ''expense today'') (u ''en'')
       default_user (query_result\<lparr>ir_action := None\<rparr>) [] =
     (Inr (Str (u ''I'm here to help with your business needs!'')), [])"
  by (simp add: handle_queries_def query_action_def has_today_def contains_any_def lower_ascii
      ascii_lower_def u_def profit_loss_words_def income_words_def expense_words_def
      query_result_def get_or_def ret_def Let_def)













lemma u_distinct:
  "u ''income'' \<noteq> u ''expense''" "u ''income'' \<noteq> u ''inventory''"
  "u ''expense'' \<noteq> u ''inventory''" "u ''expense'' \<noteq> u ''income''"
  "u ''inventory'' \<noteq> u ''income''" "u ''inventory'' \<noteq> u ''expense''"
  by (simp_all add: u_def)

lemma apply_transaction_step:
  assumes "t_intent t \<noteq> None"
  shows "apply_transaction e language user_id t tr =
     (if applicable t then
        (case ledger e tr (ledger_call language user_id t) of
           Inl ex \<Rightarrow> (Inl ex, tr @ [ledger_call language user_id t])
         | Inr r \<Rightarrow> (Inr (Some r), tr @ [ledger_call language user_id t]))
      else (Inr None, tr))"
proof -
  obtain i where i: "t_intent t = Some i" using assms by auto
  show ?thesis
    using i u_distinct
    by (auto simp add: apply_transaction_def bind_subscript applicable_def ledger_call_def
        add_income_def add_expense_def add_inventory_item_def bind_invoke ret_def
        split: sum.split)
qed



lemma grows_ret: "grows (ret x)"
  by (simp add: grows_def ret_def)

lemma grows_raise: "grows (raise ex)"
  by (simp add: grows_def raise_def)

lemma grows_invoke: "grows (invoke answer c)"
  by (simp add: grows_def invoke_def)

lemma grows_subscript: "grows (subscript v)"
  by (cases v) (simp_all add: subscript_def grows_ret grows_raise)

lemma grows_bind:
  assumes "grows m" and "\<And>x. grows (f x)"
  shows "grows (bind m f)"
  unfolding grows_def
proof
  fix tr
  obtain res tr1 where m: "m tr = (res, tr1)" by (cases "m tr")
  obtain r1 where r1: "tr1 = tr @ r1"
    using assms(1) m unfolding grows_def by (metis snd_conv)
  show "\<exists>rest. snd (bind m f tr) = tr @ rest"
  proof (cases res)
    case (Inl ex)
    then show ?thesis using m r1 by (simp add: bind_def)
  next
    case (Inr x)
    obtain r2 where "snd (f x tr1) = tr1 @ r2"
      using assms(2) unfolding grows_def by blast
    then show ?thesis using Inr m r1 by (simp add: bind_def)
  qed
qed

lemmas grows_intros = grows_ret grows_raise grows_invoke grows_subscript grows_bind

lemma grows_apply_transaction: "grows (apply_transaction e language user_id t)"
  by (auto simp add: apply_transaction_def add_income_def add_expense_def
      add_inventory_item_def intro!: grows_intros)

lemma grows_apply_transactions:
  "grows (apply_transactions e language user_id ts business_results)"
  by (induction ts arbitrary: business_results)
     (auto intro!: grows_intros grows_apply_transaction)

lemma grows_answers:
  "grows (profit_loss_answer e user_id l language)" "grows (income_answer e user_id language)"
  "grows (expense_answer e user_id language)" "grows (today_expense_answer e user_id language)"
  by (auto simp add: profit_loss_answer_def income_answer_def expense_answer_def
      today_expense_answer_def intro!: grows_intros)

lemma grows_handle_queries: "grows (handle_queries e message language user_id intent_result)"
  by (auto simp add: handle_queries_def query_action_def Let_def
      intro!: grows_intros grows_answers)

lemma grows_business: "grows (business e message language user_id intent_result)"
  by (auto simp add: business_def process_transactions_def legacy_income_def
      legacy_expense_def add_income_def add_expense_def Let_def
      intro!: grows_intros grows_apply_transactions grows_handle_queries)

lemma grows_dispatch: "grows (dispatch e message language user_id intent_result)"
  by (auto simp add: dispatch_def conversational_def item_clarification_def finish_def
      save_chat_history_def Let_def intro!: grows_intros grows_business)

lemma classify_result:
  "\<exists>ir. classify e message language chat_mode tr =
     (Inr ir, tr @ [Parse_intent message language chat_mode join_timeout])"
  by (simp add: classify_eq split: ai_outcome.split)

lemma run_clear_result:
  "\<exists>res. run_clear e cmd c language intent tr = (res, tr @ [c]) \<and> res \<noteq> Inr None"
proof (cases "ledger e tr c")
  case (Inl ex)
  then show ?thesis by (simp add: run_clear_def bind_invoke)
next
  case (Inr result)
  have "\<exists>res. bind (cleared_text cmd language result) f (tr @ [c]) = (res, tr @ [c])
      \<and> res \<noteq> Inr None"
    if "\<And>x. f x = ret (Some (g x))" for f :: "msg_text \<Rightarrow> response option io" and g
    using that
    by (cases "res_message result")
       (simp_all add: cleared_text_def bind_def subscript_def ret_def raise_def)
  then show ?thesis
    using Inr by (simp add: run_clear_def bind_invoke)
qed

lemma clear_commands_result:
  assumes "is_clear_command message"
  shows "\<exists>res c. clear_commands e message language user_id tr = (res, tr @ [c])
     \<and> res \<noteq> Inr None
     \<and> (c = Clear_expenses user_id \<or> c = Clear_income user_id
          \<or> c = Clear_chat_history user_id \<or> c = Clear_all_data user_id)"
proof -
  have "\<exists>cmd c intent. clear_commands e message language user_id =
          run_clear e cmd c language intent
      \<and> (c = Clear_expenses user_id \<or> c = Clear_income user_id
          \<or> c = Clear_chat_history user_id \<or> c = Clear_all_data user_id)"
    using assms by (auto simp add: clear_commands_def is_clear_command_def Let_def)
  then show ?thesis
    using run_clear_result by metis
qed

text \<open>
  C2 (amended).  Outside business mode the fast pattern matcher is skipped, and the clear
  commands are not: once the user id is known, a message that is no clear command is sent
  to the classifier before any other call is made, and a message that is a clear command
  makes its clear call on the ledger, and no call to the classifier.
\<close>

theorem general_mode_skips_fast_path_only:
  assumes "chat_mode \<noteq> u ''business''"
    and "get_user_id_from_auth e authorization tr0 = (Inr user_id, tr)"
  shows "(\<not> is_clear_command message \<longrightarrow>
           (\<exists>r rest. process_text_message e message language chat_mode authorization tr0 =
              (r, tr @ Parse_intent message language chat_mode join_timeout # rest)))
     \<and> (is_clear_command message \<longrightarrow>
           (\<exists>r c. process_text_message e message language chat_mode authorization tr0 =
              (r, tr @ [c])
            \<and> (c = Clear_expenses user_id \<or> c = Clear_income user_id
                 \<or> c = Clear_chat_history user_id \<or> c = Clear_all_data user_id)))"
proof -
  have pipe: "pipeline e message language chat_mode authorization tr0 =
      after_fast_path e message language chat_mode user_id tr"
    using assms by (simp add: pipeline_def bind_def ret_def)
  have out: "\<exists>r. process_text_message e message language chat_mode authorization tr0 =
      (r, snd (after_fast_path e message language chat_mode user_id tr))"
    unfolding process_text_message_def pipe
    by (cases "after_fast_path e message language chat_mode user_id tr")
       (auto split: sum.split)
  have a: "\<exists>rest. snd (after_fast_path e message language chat_mode user_id tr) =
      tr @ Parse_intent message language chat_mode join_timeout # rest"
    if "\<not> is_clear_command message"
  proof -
    obtain ir where ir: "classify e message language chat_mode tr =
        (Inr ir, tr @ [Parse_intent message language chat_mode join_timeout])"
      using classify_result by blast
    obtain rest where "snd (dispatch e message language user_id ir
        (tr @ [Parse_intent message language chat_mode join_timeout])) =
        (tr @ [Parse_intent message language chat_mode join_timeout]) @ rest"
      using grows_dispatch unfolding grows_def by blast
    moreover have "after_fast_path e message language chat_mode user_id tr =
        dispatch e message language user_id ir
          (tr @ [Parse_intent message language chat_mode join_timeout])"
      using that ir
      by (simp add: after_fast_path_def clear_commands_none bind_ret) (simp add: bind_def)
    ultimately show ?thesis by simp
  qed
  have b: "\<exists>c. snd (after_fast_path e message language chat_mode user_id tr) = tr @ [c]
      \<and> (c = Clear_expenses user_id \<or> c = Clear_income user_id
           \<or> c = Clear_chat_history user_id \<or> c = Clear_all_data user_id)"
    if h: "is_clear_command message"
  proof -
    obtain res c where c: "clear_commands e message language user_id tr = (res, tr @ [c])"
      "res \<noteq> Inr None"
      "c = Clear_expenses user_id \<or> c = Clear_income user_id
        \<or> c = Clear_chat_history user_id \<or> c = Clear_all_data user_id"
      using clear_commands_result [OF h] by blast
    have "snd (after_fast_path e message language chat_mode user_id tr) = tr @ [c]"
      using c(1,2)
      by (cases res) (auto simp add: after_fast_path_def bind_def ret_def split: option.split)
    then show ?thesis using c(3) by blast
  qed
  show ?thesis
    using out a b by metis
qed

lemma clear_all_is_command: "is_clear_command (u ''clear all'')"
  by (simp add: is_clear_command_def contains_any_def lower_ascii ascii_lower_def u_def
      clear_expense_phrases_def clear_income_phrases_def clear_chat_phrases_def
      clear_all_phrases_def)

theorem general_mode_skips_fast_path_only_witness:
  "u ''general'' \<noteq> u ''business''
   \<and> get_user_id_from_auth (sample_env Still_running (Inr ())) None [] = (Inr default_user, [])
   \<and> \<not> is_clear_command (u ''income 500'')
   \<and> (\<exists>r rest. process_text_message (sample_env Still_running (Inr ())) (u ''income 500'')
          (u ''en'') (u ''general'') None [] =
          (r, Parse_intent (u ''income 500'') (u ''en'') (u ''general'') join_timeout # rest))"
proof -
  have nc: "\<not> is_clear_command (u ''income 500'')"
    by (simp add: is_clear_command_def contains_any_def lower_ascii ascii_lower_def u_def
        clear_expense_phrases_def clear_income_phrases_def clear_chat_phrases_def
        clear_all_phrases_def)
  have g: "u ''general'' \<noteq> u ''business''"
    by (simp add: u_def)
  have au: "get_user_id_from_auth (sample_env Still_running (Inr ())) None [] =
      (Inr default_user, [])"
    by (simp add: get_user_id_from_auth_def ret_def)
  show ?thesis
    using general_mode_skips_fast_path_only [OF g au, of "u ''income 500''" "u ''en''"] nc g au
    by simp
qed

text \<open>
  C2 as stated fails: in general mode the message \<open>clear all\<close> clears all data of the user,
  and the classifier is not called.
\<close>

theorem general_mode_clear_counterexample:
  "process_text_message (sample_env Still_running (Inr ())) (u ''clear all'') (u ''en'')
     (u ''general'') None [] =
     (ok_response (Cleared_msg Cmd_all Lang_en) (Some (u ''all_clear'')) [ok_result],
      [Clear_all_data default_user])"
proof -
  let ?e = "sample_env Still_running (Inr ())"
  have "pipeline ?e (u ''clear all'') (u ''en'') (u ''general'') None [] =
      after_fast_path ?e (u ''clear all'') (u ''en'') (u ''general'') default_user []"
    by (simp add: pipeline_def get_user_id_from_auth_def bind_ret u_def)
  also have "\<dots> = (Inr (ok_response (Cleared_msg Cmd_all Lang_en) (Some (u ''all_clear''))
                        [ok_result]), [Clear_all_data default_user])"
  proof -
    have "clear_commands ?e (u ''clear all'') (u ''en'') default_user =
        run_clear ?e Cmd_all (Clear_all_data default_user) (u ''en'') (u ''all_clear'')"
      by (simp add: clear_commands_def contains_any_def lower_ascii ascii_lower_def u_def
          clear_expense_phrases_def clear_income_phrases_def clear_chat_phrases_def
          clear_all_phrases_def Let_def)
    moreover have "run_clear ?e Cmd_all (Clear_all_data default_user) (u ''en'')
          (u ''all_clear'') [] =
        (Inr (Some (ok_response (Cleared_msg Cmd_all Lang_en) (Some (u ''all_clear''))
                      [ok_result])), [Clear_all_data default_user])"
      by (simp add: run_clear_def bind_invoke sample_env_def cleared_text_def bind_ret
          ret_def)
    ultimately show ?thesis
      by (simp add: after_fast_path_def bind_def ret_def)
  qed
  finally show ?thesis
    by (simp add: process_text_message_def)
qed



lemma returned_batch_pipeline:
  assumes "\<not> is_clear_command message" and "ts \<noteq> []"
  shows "process_text_message (sample_env (Returned (batch_result ts)) (Inr ())) message
           (u ''en'') (u ''general'') None [] =
         (case bind (process_transactions (sample_env (Returned (batch_result ts)) (Inr ()))
                       (u ''en'') default_user (batch_result ts))
                 (finish (sample_env (Returned (batch_result ts)) (Inr ())) message
                    default_user (batch_result ts))
                 [Parse_intent message (u ''en'') (u ''general'') 15] of
            (Inr r, tr') \<Rightarrow> (r, tr')
          | (Inl ex, tr') \<Rightarrow> (failure_response (u ''en'') ex, tr'))"
proof -
  let ?e = "sample_env (Returned (batch_result ts)) (Inr ())"
  have "pipeline ?e message (u ''en'') (u ''general'') None [] =
      after_fast_path ?e message (u ''en'') (u ''general'') default_user []"
    by (simp add: pipeline_def get_user_id_from_auth_def bind_ret u_def)
  also have "\<dots> = bind (classify ?e message (u ''en'') (u ''general''))
      (dispatch ?e message (u ''en'') default_user) []"
    using assms(1) by (simp add: after_fast_path_def clear_commands_none bind_ret)
  also have "\<dots> = dispatch ?e message (u ''en'') default_user (batch_result ts)
      [Parse_intent message (u ''en'') (u ''general'') 15]"
    by (simp add: bind_def classify_eq sample_env_def join_timeout_def)
  also have "dispatch ?e message (u ''en'') default_user (batch_result ts) =
      bind (process_transactions ?e (u ''en'') default_user (batch_result ts))
        (finish ?e message default_user (batch_result ts))"
    using assms(2)
    by (simp add: dispatch_def business_def batch_result_def truthy_seq_def u_def)
  finally show ?thesis
    by (simp add: process_text_message_def)
qed

lemma message_facts:
  "\<not> is_clear_command (u ''sold rice and paid rent'')"
  "\<not> is_clear_command (u ''refund'')"
  by (simp_all add: is_clear_command_def contains_any_def lower_ascii ascii_lower_def u_def
      clear_expense_phrases_def clear_income_phrases_def clear_chat_phrases_def
      clear_all_phrases_def)


lemma negative_apply:
  "apply_transactions (sample_env outcome saved) (u ''en'') default_user negative_batch [] tr =
     (Inr [ok_result],
      tr @ [Add_expense default_user (- 5) (Str (u ''Expense'')) (u ''General'') (u ''text'')])"
  by (simp add: negative_batch_def blank_transaction_def bind_def apply_transaction_step
      applicable_def truthy_num_def truthy_seq_def ledger_call_def get_or_def
      sample_env_def ret_def u_def)


text \<open>
  C3 fails on the code.  A negative amount in a classifier batch is truthy, so the expense
  of amount -5 is passed to \<open>add_expense\<close>; and \<open>confirm_items\<close> tests no amount, so the
  confirmed item of amount 0 is passed to \<open>add_income\<close>.
\<close>

theorem non_positive_amount_reaches_ledger:
  "process_text_message (sample_env (Returned (batch_result negative_batch)) (Inr ()))
     (u ''refund'') (u ''en'') (u ''general'') None [] =
     ((ok_response (Str (u ''Transactions processed successfully!'')) (Some (u ''multiple''))
         [ok_result])
        \<lparr>resp_confidence := Some 0, resp_transactions_processed := Some 1\<rparr>,
      [Parse_intent (u ''refund'') (u ''en'') (u ''general'') 15,
       Add_expense default_user (- 5) (Str (u ''Expense'')) (u ''General'') (u ''text''),
       Save_chat_history default_user (Str (u ''refund''))
         (Str (u ''Transactions processed successfully!'')) (u ''text'') (u ''multiple'')])
   \<and> confirm_items (sample_env Still_running (Inr ())) [zero_item] None [] =
     ((ok_response (Items_processed_msg 1) None [ok_result])\<lparr>resp_processed_count := Some 1\<rparr>,
      [Add_income default_user 0 (Str (u ''rice'')) (u ''sales'') (u ''user_confirmed'') None,
       Save_chat_history default_user (Confirmed_items_msg 1) (Items_processed_msg 1)
         (u ''confirmation'') (u ''item_confirmation'')])"
proof -
  have ne: "negative_batch \<noteq> []" by (simp add: negative_batch_def)
  have a: "process_text_message (sample_env (Returned (batch_result negative_batch)) (Inr ()))
     (u ''refund'') (u ''en'') (u ''general'') None [] =
     ((ok_response (Str (u ''Transactions processed successfully!'')) (Some (u ''multiple''))
         [ok_result])
        \<lparr>resp_confidence := Some 0, resp_transactions_processed := Some 1\<rparr>,
      [Parse_intent (u ''refund'') (u ''en'') (u ''general'') 15,
       Add_expense default_user (- 5) (Str (u ''Expense'')) (u ''General'') (u ''text''),
       Save_chat_history default_user (Str (u ''refund''))
         (Str (u ''Transactions processed successfully!'')) (u ''text'') (u ''multiple'')])"
    unfolding returned_batch_pipeline [OF message_facts(2) ne]
    by (simp add: process_transactions_def batch_result_def bind_def negative_apply ret_def
        finish_def Let_def get_or_def save_chat_history_def invoke_def)
       (simp add: sample_env_def ret_def)
  have b: "confirm_items (sample_env Still_running (Inr ())) [zero_item] None [] =
     ((ok_response (Items_processed_msg 1) None [ok_result])\<lparr>resp_processed_count := Some 1\<rparr>,
      [Add_income default_user 0 (Str (u ''rice'')) (u ''sales'') (u ''user_confirmed'') None,
       Save_chat_history default_user (Confirmed_items_msg 1) (Items_processed_msg 1)
         (u ''confirmation'') (u ''item_confirmation'')])"
    by (simp add: confirm_items_def get_user_id_from_auth_def confirm_item_def
        zero_item_def get_or_def Let_def add_income_def sample_env_def
        save_chat_history_def ok_result_def bind_def invoke_def ret_def u_def)
  show ?thesis using a b by simp
qed

end
